theory Spec2Isabelle
  imports Complex_Main "HOL-Library.Sublist"
begin

section \<open>Python primitives used by the code\<close>

text \<open>
  Scores are Python floats. They are modelled as exact rationals: the binary rounding
  error of floating-point arithmetic is not part of the model. Strings are lists of
  8-bit characters; case folding and white space are those of the ASCII range.
\<close>

text \<open>The exceptions the code raises or catches, each with its message \<^verbatim>\<open>str(e)\<close>.\<close>

datatype py_error =
    ValueError string
  | ValidationError string
  | KeyError string
  | JSONDecodeError string
  | TimeoutExpired string
  | OtherError string

fun error_message :: "py_error \<Rightarrow> string" where
  "error_message (ValueError m) = m"
| "error_message (ValidationError m) = m"
| "error_message (KeyError m) = m"
| "error_message (JSONDecodeError m) = m"
| "error_message (TimeoutExpired m) = m"
| "error_message (OtherError m) = m"

text \<open>\<^verbatim>\<open>round(x)\<close> for a number: to the nearest integer, a tie going to the even one.\<close>

definition round_half_even :: "rat \<Rightarrow> int" where
  "round_half_even x =
     (let f = \<lfloor>x\<rfloor>; d = x - of_int f
      in if d < 1 / 2 then f
         else if 1 / 2 < d then f + 1
         else if even f then f else f + 1)"

text \<open>\<^verbatim>\<open>round(x, 2)\<close>.\<close>

definition round2 :: "rat \<Rightarrow> rat" where
  "round2 x = of_int (round_half_even (x * 100)) / 100"

text \<open>\<^verbatim>\<open>str.isspace\<close> and the regular expression class \<^verbatim>\<open>\s\<close>, on ASCII.\<close>

definition is_space :: "char \<Rightarrow> bool" where
  "is_space c \<longleftrightarrow>
     c = CHR '' '' \<or> c = CHR 0x09 \<or> c = CHR 0x0A \<or> c = CHR 0x0B \<or> c = CHR 0x0C \<or>
     c = CHR 0x0D \<or> c = CHR 0x1C \<or> c = CHR 0x1D \<or> c = CHR 0x1E \<or> c = CHR 0x1F"

definition lower_char :: "char \<Rightarrow> char" where
  "lower_char c =
     (case map_of (zip ''ABCDEFGHIJKLMNOPQRSTUVWXYZ'' ''abcdefghijklmnopqrstuvwxyz'') c of
        Some d \<Rightarrow> d
      | None \<Rightarrow> c)"

text \<open>\<^verbatim>\<open>s.lower()\<close>.\<close>

definition lower :: "string \<Rightarrow> string" where
  "lower s = map lower_char s"

text \<open>\<^verbatim>\<open>needle in s\<close> for strings: \<open>needle\<close> occurs as a contiguous part of \<open>s\<close>.\<close>

definition str_in :: "string \<Rightarrow> string \<Rightarrow> bool" where
  "str_in needle s \<longleftrightarrow> sublist needle s"

text \<open>\<^verbatim>\<open>s.count(needle)\<close>: the occurrences that do not overlap, from the left.\<close>

function str_count :: "string \<Rightarrow> string \<Rightarrow> nat" where
  "str_count needle [] = (if needle = [] then 1 else 0)"
| "str_count needle (c # cs) =
     (if prefix needle (c # cs)
      then 1 + str_count needle (drop (length needle - 1) cs)
      else str_count needle cs)"
  by pat_completeness auto
termination
  by (relation "measure (\<lambda>(needle, s). length s)") auto

text \<open>\<^verbatim>\<open>s.strip()\<close>.\<close>

definition strip :: "string \<Rightarrow> string" where
  "strip s = rev (dropWhile is_space (rev (dropWhile is_space s)))"

text \<open>\<^verbatim>\<open>s.split('\n')\<close>: never empty, the last line is what follows the last newline.\<close>

fun split_lines :: "string \<Rightarrow> string list" where
  "split_lines [] = [[]]"
| "split_lines (c # cs) =
     (if c = CHR 0x0A then [] # split_lines cs
      else (case split_lines cs of
              l # ls \<Rightarrow> (c # l) # ls
            | [] \<Rightarrow> [[c]]))"

text \<open>\<^verbatim>\<open>str(n)\<close> for a count.\<close>

definition digit_char :: "nat \<Rightarrow> char" where
  "digit_char d = ''0123456789'' ! d"

fun str_of_nat :: "nat \<Rightarrow> string" where
  "str_of_nat n =
     (if n < 10 then [digit_char n] else str_of_nat (n div 10) @ [digit_char (n mod 10)])"

declare str_of_nat.simps [simp del]

section \<open>The data model (\<^verbatim>\<open>app/models/review_model.py\<close>)\<close>

datatype severity_level = LOW | MEDIUM | HIGH | CRITICAL

datatype issue_type =
    SYNTAX_ERROR
  | STYLE_VIOLATION
  | LOGIC_ERROR
  | SECURITY_VULNERABILITY
  | PERFORMANCE_ISSUE
  | MAINTAINABILITY_ISSUE
  | DOCUMENTATION_ISSUE

datatype programming_language =
    PYTHON | JAVASCRIPT | TYPESCRIPT | JAVA | CPP | C | GO | RUST | PHP | RUBY

text \<open>The \<^verbatim>\<open>.value\<close> of each enumeration member.\<close>

fun severity_value :: "severity_level \<Rightarrow> string" where
  "severity_value LOW = ''low''"
| "severity_value MEDIUM = ''medium''"
| "severity_value HIGH = ''high''"
| "severity_value CRITICAL = ''critical''"

fun issue_type_value :: "issue_type \<Rightarrow> string" where
  "issue_type_value SYNTAX_ERROR = ''syntax_error''"
| "issue_type_value STYLE_VIOLATION = ''style_violation''"
| "issue_type_value LOGIC_ERROR = ''logic_error''"
| "issue_type_value SECURITY_VULNERABILITY = ''security_vulnerability''"
| "issue_type_value PERFORMANCE_ISSUE = ''performance_issue''"
| "issue_type_value MAINTAINABILITY_ISSUE = ''maintainability_issue''"
| "issue_type_value DOCUMENTATION_ISSUE = ''documentation_issue''"

fun language_value :: "programming_language \<Rightarrow> string" where
  "language_value PYTHON = ''python''"
| "language_value JAVASCRIPT = ''javascript''"
| "language_value TYPESCRIPT = ''typescript''"
| "language_value JAVA = ''java''"
| "language_value CPP = ''cpp''"
| "language_value C = ''c''"
| "language_value GO = ''go''"
| "language_value RUST = ''rust''"
| "language_value PHP = ''php''"
| "language_value RUBY = ''ruby''"

text \<open>
  Validation of a string against an enumeration, as the model classes do for a field of
  that type: the member with that value, or a validation error.
\<close>

definition parse_severity :: "string \<Rightarrow> py_error + severity_level" where
  "parse_severity s =
     (case find (\<lambda>v. severity_value v = s) [LOW, MEDIUM, HIGH, CRITICAL] of
        Some v \<Rightarrow> Inr v
      | None \<Rightarrow> Inl (ValidationError ''severity''))"

definition parse_issue_type :: "string \<Rightarrow> py_error + issue_type" where
  "parse_issue_type s =
     (case find (\<lambda>v. issue_type_value v = s)
             [SYNTAX_ERROR, STYLE_VIOLATION, LOGIC_ERROR, SECURITY_VULNERABILITY,
              PERFORMANCE_ISSUE, MAINTAINABILITY_ISSUE, DOCUMENTATION_ISSUE] of
        Some v \<Rightarrow> Inr v
      | None \<Rightarrow> Inl (ValidationError ''type''))"

definition parse_language :: "string \<Rightarrow> py_error + programming_language" where
  "parse_language s =
     (case find (\<lambda>v. language_value v = s)
             [PYTHON, JAVASCRIPT, TYPESCRIPT, JAVA, CPP, C, GO, RUST, PHP, RUBY] of
        Some v \<Rightarrow> Inr v
      | None \<Rightarrow> Inl (ValidationError ''language''))"

text \<open>\<^verbatim>\<open>Field(ge=0.0, le=10.0)\<close>, the constraint on every score field.\<close>

definition score_in_range :: "rat \<Rightarrow> bool" where
  "score_in_range s \<longleftrightarrow> 0 \<le> s \<and> s \<le> 10"

record code_issue =
  issue_kind :: issue_type
  issue_severity :: severity_level
  issue_line :: "int option"
  issue_column :: "int option"
  issue_message :: string
  issue_suggestion :: "string option"
  issue_rule_id :: "string option"
  issue_tool :: "string option"

record code_suggestion =
  sugg_kind :: string
  sugg_description :: string
  sugg_refactored_code :: "string option"
  sugg_reason :: string
  sugg_confidence :: rat

record security_concern =
  concern_kind :: string
  concern_severity :: severity_level
  concern_description :: string
  concern_mitigation :: string
  concern_cwe_id :: "string option"

record performance_note =
  note_area :: string
  note_issue :: string
  note_suggestion :: string
  note_impact_level :: string

record static_analysis_result =
  sa_tool :: string
  sa_issues :: "code_issue list"
  sa_score :: rat
  sa_summary :: string

record ai_analysis_result =
  air_score :: rat
  air_issues :: "code_issue list"
  air_suggestions :: "code_suggestion list"
  air_security_concerns :: "security_concern list"
  air_performance_notes :: "performance_note list"
  air_readability_score :: rat
  air_maintainability_score :: rat
  air_summary :: string
  air_raw_response :: "string option"

record code_review_request =
  req_code :: string
  req_language :: programming_language
  req_context :: "string option"
  req_file_name :: "string option"
  req_include_static_analysis :: bool
  req_include_ai_analysis :: bool
  req_focus_areas :: "string list option"

text \<open>
  \<^verbatim>\<open>CodeReviewResponse\<close>, without the three fields that come from the clock and the
  random source (\<^verbatim>\<open>review_id\<close>, \<^verbatim>\<open>timestamp\<close>, \<^verbatim>\<open>processing_time_ms\<close>): no other
  field is computed from them.
\<close>

record code_review_response =
  resp_language :: programming_language
  resp_file_name :: "string option"
  resp_static_analysis :: "static_analysis_result option"
  resp_ai_analysis :: "ai_analysis_result option"
  resp_overall_score :: rat
  resp_total_issues :: nat
  resp_critical_issues :: nat
  resp_security_issues :: nat
  resp_summary :: string
  resp_recommendations :: "string list"
  resp_tools_used :: "string list"

text \<open>
  One entry of \<^verbatim>\<open>BatchReviewRequest.files\<close>: a dictionary from strings to strings, in
  which any key may be missing.
\<close>

record file_data =
  file_code :: "string option"
  file_language :: "string option"
  file_file_name :: "string option"
  file_context :: "string option"

record batch_review_request =
  batch_files :: "file_data list"
  batch_include_static_analysis :: bool
  batch_include_ai_analysis :: bool
  batch_focus_areas :: "string list option"

record batch_review_response =
  batch_total_files :: nat
  batch_successful_reviews :: nat
  batch_failed_reviews :: nat
  batch_reviews :: "code_review_response list"
  batch_overall_summary :: string

record review_history =
  hist_file_name :: "string option"
  hist_language :: programming_language
  hist_overall_score :: rat
  hist_total_issues :: nat
  hist_summary :: string

text \<open>
  The constructors of the validated classes. A score outside \<open>[0, 10]\<close> is a validation
  error; so is the empty string as the code of a request (\<^verbatim>\<open>min_length=1\<close>).
\<close>

definition StaticAnalysisResult ::
  "string \<Rightarrow> code_issue list \<Rightarrow> rat \<Rightarrow> string \<Rightarrow> py_error + static_analysis_result" where
  "StaticAnalysisResult tool issues score summary =
     (if score_in_range score
      then Inr \<lparr>sa_tool = tool, sa_issues = issues, sa_score = score, sa_summary = summary\<rparr>
      else Inl (ValidationError ''score''))"

definition CodeReviewRequest ::
  "string \<Rightarrow> programming_language \<Rightarrow> string option \<Rightarrow> string option \<Rightarrow> bool \<Rightarrow> bool \<Rightarrow>
   string list option \<Rightarrow> py_error + code_review_request" where
  "CodeReviewRequest code lang file_name ctx inc_static inc_ai focus =
     (if length code < 1 then Inl (ValidationError ''code'')
      else Inr \<lparr>req_code = code, req_language = lang, req_context = ctx,
                req_file_name = file_name, req_include_static_analysis = inc_static,
                req_include_ai_analysis = inc_ai, req_focus_areas = focus\<rparr>)"

definition CodeReviewResponse :: "code_review_response \<Rightarrow> py_error + code_review_response" where
  "CodeReviewResponse r =
     (if score_in_range (resp_overall_score r) then Inr r
      else Inl (ValidationError ''overall_score''))"

section \<open>Utilities (\<^verbatim>\<open>app/utils/code_utils.py\<close>)\<close>

subsection \<open>\<^verbatim>\<open>calculate_overall_score\<close>\<close>

definition calculate_overall_score :: "rat list \<Rightarrow> rat \<Rightarrow> rat" where
  "calculate_overall_score static_scores ai_score =
     (if static_scores = [] \<and> ai_score = 0 then 5
      else
        let static_avg = (if static_scores \<noteq> []
                          then sum_list static_scores / of_nat (length static_scores)
                          else 5);
            overall_score = static_avg * (6 / 10) + ai_score * (4 / 10)
        in round2 overall_score)"

subsection \<open>\<^verbatim>\<open>generate_summary\<close>\<close>

text \<open>\<^verbatim>\<open>sep.join(parts)\<close>.\<close>

fun join :: "string \<Rightarrow> string list \<Rightarrow> string" where
  "join sep [] = []"
| "join sep [x] = x"
| "join sep (x # y # ys) = x @ sep @ join sep (y # ys)"

definition generate_summary :: "code_issue list \<Rightarrow> code_suggestion list \<Rightarrow> rat \<Rightarrow> string" where
  "generate_summary issues suggestions score =
     (let total_issues = length issues;
          critical_issues = length (filter (\<lambda>i. issue_severity i = CRITICAL) issues);
          high_issues = length (filter (\<lambda>i. issue_severity i = HIGH) issues);
          summary_parts =
            [if 8 \<le> score then ''Code quality is excellent''
             else if 6 \<le> score then ''Code quality is good with minor improvements needed''
             else if 4 \<le> score then ''Code quality needs improvement''
             else ''Code quality requires significant attention'']
            @ (if 0 < total_issues
               then [''Found '' @ str_of_nat total_issues @ '' issues'']
                    @ (if 0 < critical_issues
                       then [''including '' @ str_of_nat critical_issues @ '' critical issues'']
                       else if 0 < high_issues
                       then [''including '' @ str_of_nat high_issues @ '' high-priority issues'']
                       else [])
               else [])
            @ (if suggestions \<noteq> []
               then [''Generated '' @ str_of_nat (length suggestions) @ '' improvement suggestions'']
               else [])
      in join ''. '' summary_parts @ ''.'')"

subsection \<open>\<^verbatim>\<open>sanitize_code\<close>\<close>

text \<open>
  The five regular expressions of \<^verbatim>\<open>sensitive_patterns\<close> are sequences of character
  classes, each taken once or under one of the greedy quantifiers \<^verbatim>\<open>?\<close>, \<^verbatim>\<open>*\<close>,
  \<^verbatim>\<open>+\<close>. \<open>Ci k\<close> is the letter \<open>k\<close> under \<^verbatim>\<open>re.IGNORECASE\<close>, \<open>Sep\<close> is \<^verbatim>\<open>[_-]\<close>,
  \<open>Space\<close> is \<^verbatim>\<open>\s\<close>, \<open>Quote\<close> is \<^verbatim>\<open>["\']\<close> and \<open>NotQuote\<close> is \<^verbatim>\<open>[^"\']\<close>.
\<close>

datatype char_class = Ci char | Sep | Space | Quote | NotQuote

definition is_quote :: "char \<Rightarrow> bool" where
  "is_quote c \<longleftrightarrow> c = CHR 0x22 \<or> c = CHR 0x27"

fun class_matches :: "char_class \<Rightarrow> char \<Rightarrow> bool" where
  "class_matches (Ci k) c = (lower_char c = lower_char k)"
| "class_matches Sep c = (c = CHR ''_'' \<or> c = CHR ''-'')"
| "class_matches Space c = is_space c"
| "class_matches Quote c = is_quote c"
| "class_matches NotQuote c = (\<not> is_quote c)"

datatype regex_item = One char_class | Opt char_class | Star char_class | Plus char_class

text \<open>
  Matching at the start of a string, as the backtracking matcher of \<^verbatim>\<open>re\<close> does: a
  quantifier first takes as much as it can and gives characters back one at a time
  when the rest of the expression fails. The result is what follows the match.
\<close>

fun re_match :: "regex_item list \<Rightarrow> string \<Rightarrow> string option" where
  "re_match [] s = Some s"
| "re_match (One k # r) [] = None"
| "re_match (One k # r) (c # cs) = (if class_matches k c then re_match r cs else None)"
| "re_match (Opt k # r) [] = re_match r []"
| "re_match (Opt k # r) (c # cs) =
     (if class_matches k c
      then (case re_match r cs of Some rest \<Rightarrow> Some rest | None \<Rightarrow> re_match r (c # cs))
      else re_match r (c # cs))"
| "re_match (Star k # r) [] = re_match r []"
| "re_match (Star k # r) (c # cs) =
     (if class_matches k c
      then (case re_match (Star k # r) cs of
              Some rest \<Rightarrow> Some rest
            | None \<Rightarrow> re_match r (c # cs))
      else re_match r (c # cs))"
| "re_match (Plus k # r) [] = None"
| "re_match (Plus k # r) (c # cs) =
     (if class_matches k c then re_match (Star k # r) cs else None)"

definition literal :: "string \<Rightarrow> regex_item list" where
  "literal s = map (\<lambda>c. One (Ci c)) s"

text \<open>\<^verbatim>\<open>\s*=\s*["\'][^"\']+["\']\<close>, the common tail of the five expressions.\<close>

definition quoted_assignment :: "regex_item list" where
  "quoted_assignment =
     [Star Space, One (Ci CHR ''=''), Star Space, One Quote, Plus NotQuote, One Quote]"

definition sensitive_patterns :: "regex_item list list" where
  "sensitive_patterns =
     [literal ''api'' @ [Opt Sep] @ literal ''key'' @ quoted_assignment,
      literal ''password'' @ quoted_assignment,
      literal ''secret'' @ quoted_assignment,
      literal ''token'' @ quoted_assignment,
      literal ''key'' @ quoted_assignment]"

definition REDACTED :: string where
  "REDACTED = ''***REDACTED***''"

text \<open>
  \<^verbatim>\<open>re.sub(pattern, '***REDACTED***', s)\<close>: the matches are looked for from the left and
  do not overlap; the search goes on after the end of a match. The five expressions
  match no empty string, so a match always takes at least one character; the model
  copies the character in the case that cannot occur.
\<close>

function re_sub :: "regex_item list \<Rightarrow> string \<Rightarrow> string" where
  "re_sub p [] = []"
| "re_sub p (c # cs) =
     (case re_match p (c # cs) of
        Some rest \<Rightarrow>
          if length rest \<le> length cs then REDACTED @ re_sub p rest else c # re_sub p cs
      | None \<Rightarrow> c # re_sub p cs)"
  by pat_completeness auto
termination
  by (relation "measure (\<lambda>(p, s). length s)") auto

definition sanitize_code :: "string \<Rightarrow> string" where
  "sanitize_code code = foldl (\<lambda>sanitized_code pattern. re_sub pattern sanitized_code)
                          code sensitive_patterns"

section \<open>Static analysis tools (\<^verbatim>\<open>app/utils/static_analyzer.py\<close>)\<close>

text \<open>
  What the tools print is decoded by \<^verbatim>\<open>json.loads\<close> and read with \<^verbatim>\<open>.get\<close>. The decoded
  documents are modelled with the fields the code reads, each optional as a key of a
  dictionary is. The decoder is a parameter of the model: it returns the document,
  raises \<open>JSONDecodeError\<close>, or stands for any other exception raised while the
  document is traversed (a document of another shape).
\<close>

record pylint_item =
  pl_type :: "string option"
  pl_line :: "int option"
  pl_column :: "int option"
  pl_message :: "string option"
  pl_message_id :: "string option"

record eslint_message =
  es_severity :: "int option"
  es_line :: "int option"
  es_column :: "int option"
  es_message :: "string option"
  es_rule_id :: "string option"

record bandit_item =
  bd_issue_severity :: "string option"
  bd_line_number :: "int option"
  bd_issue_text :: "string option"
  bd_test_id :: "string option"

text \<open>\<^verbatim>\<open>d.get(key, default)\<close> on an optional field.\<close>

definition get_or :: "'a option \<Rightarrow> 'a \<Rightarrow> 'a" where
  "get_or v d = (case v of Some x \<Rightarrow> x | None \<Rightarrow> d)"

text \<open>
  The environment of the tool runner: the settings, the temporary file (an error of
  its creation or removal, when there is one), the outcome of running a command on a
  file holding the code (\<^verbatim>\<open>subprocess.run\<close>: an exception or the standard output), the
  decoders and \<^verbatim>\<open>int()\<close> on a string.
\<close>

record static_env =
  se_pylint_enabled :: bool
  se_eslint_enabled :: bool
  se_bandit_enabled :: bool
  se_tempfile_error :: "py_error option"
  se_subprocess_run :: "string \<Rightarrow> string \<Rightarrow> py_error + string"
  se_pylint_loads :: "string \<Rightarrow> py_error + pylint_item list"
  se_eslint_loads :: "string \<Rightarrow> py_error + eslint_message list list"
  se_bandit_loads :: "string \<Rightarrow> py_error + bandit_item list"
  se_int :: "string \<Rightarrow> int option"

definition map_pylint_type :: "string \<Rightarrow> issue_type" where
  "map_pylint_type pylint_type =
     (if pylint_type = ''error'' then SYNTAX_ERROR
      else if pylint_type = ''fatal'' then SYNTAX_ERROR
      else if pylint_type = ''warning'' then STYLE_VIOLATION
      else if pylint_type = ''refactor'' then MAINTAINABILITY_ISSUE
      else if pylint_type = ''convention'' then STYLE_VIOLATION
      else STYLE_VIOLATION)"

definition map_pylint_severity :: "string \<Rightarrow> severity_level" where
  "map_pylint_severity pylint_type =
     (if pylint_type = ''error'' then HIGH
      else if pylint_type = ''fatal'' then CRITICAL
      else if pylint_type = ''warning'' then MEDIUM
      else if pylint_type = ''refactor'' then LOW
      else if pylint_type = ''convention'' then LOW
      else MEDIUM)"

definition map_eslint_type :: "int \<Rightarrow> issue_type" where
  "map_eslint_type severity = (if severity = 2 then SYNTAX_ERROR else STYLE_VIOLATION)"

definition map_eslint_severity :: "int \<Rightarrow> severity_level" where
  "map_eslint_severity severity = (if severity = 2 then HIGH else MEDIUM)"

definition map_bandit_severity :: "string \<Rightarrow> severity_level" where
  "map_bandit_severity severity =
     (if severity = ''HIGH'' then CRITICAL
      else if severity = ''MEDIUM'' then HIGH
      else if severity = ''LOW'' then MEDIUM
      else MEDIUM)"

subsection \<open>The loops over the decoded items\<close>

definition pylint_issue :: "pylint_item \<Rightarrow> code_issue" where
  "pylint_issue item =
     \<lparr>issue_kind = map_pylint_type (get_or (pl_type item) ''''),
      issue_severity = map_pylint_severity (get_or (pl_type item) ''''),
      issue_line = pl_line item,
      issue_column = pl_column item,
      issue_message = get_or (pl_message item) '''',
      issue_suggestion = Some (get_or (pl_message item) ''''),
      issue_rule_id = Some (get_or (pl_message_id item) ''''),
      issue_tool = Some ''pylint''\<rparr>"

text \<open>What one item takes off the score.\<close>

definition pylint_deduction :: "pylint_item \<Rightarrow> rat" where
  "pylint_deduction item =
     (if pl_type item = Some ''error'' \<or> pl_type item = Some ''fatal'' then 2
      else if pl_type item = Some ''warning'' then 1
      else if pl_type item = Some ''refactor'' then 1 / 2
      else 0)"

definition pylint_loop :: "pylint_item list \<Rightarrow> code_issue list \<times> rat" where
  "pylint_loop pylint_data =
     foldl (\<lambda>(issues, score) item.
              (issues @ [pylint_issue item], score - pylint_deduction item))
       ([], 10) pylint_data"

definition eslint_issue :: "eslint_message \<Rightarrow> code_issue" where
  "eslint_issue message =
     \<lparr>issue_kind = map_eslint_type (get_or (es_severity message) 1),
      issue_severity = map_eslint_severity (get_or (es_severity message) 1),
      issue_line = es_line message,
      issue_column = es_column message,
      issue_message = get_or (es_message message) '''',
      issue_suggestion = Some (get_or (es_message message) ''''),
      issue_rule_id = Some (get_or (es_rule_id message) ''''),
      issue_tool = Some ''eslint''\<rparr>"

definition eslint_deduction :: "eslint_message \<Rightarrow> rat" where
  "eslint_deduction message =
     (if es_severity message = Some 2 then 2
      else if es_severity message = Some 1 then 1
      else 0)"

definition eslint_loop :: "eslint_message list list \<Rightarrow> code_issue list \<times> rat" where
  "eslint_loop eslint_data =
     foldl (\<lambda>acc file_messages.
              foldl (\<lambda>(issues, score) message.
                       (issues @ [eslint_issue message], score - eslint_deduction message))
                acc file_messages)
       ([], 10) eslint_data"

definition bandit_issue :: "bandit_item \<Rightarrow> code_issue" where
  "bandit_issue item =
     \<lparr>issue_kind = SECURITY_VULNERABILITY,
      issue_severity = map_bandit_severity (get_or (bd_issue_severity item) ''MEDIUM''),
      issue_line = bd_line_number item,
      issue_column = None,
      issue_message = get_or (bd_issue_text item) '''',
      issue_suggestion = Some (get_or (bd_issue_text item) ''''),
      issue_rule_id = Some (get_or (bd_test_id item) ''''),
      issue_tool = Some ''bandit''\<rparr>"

definition bandit_deduction :: "bandit_item \<Rightarrow> rat" where
  "bandit_deduction item =
     (let severity = get_or (bd_issue_severity item) ''MEDIUM''
      in if severity = ''HIGH'' then 3
         else if severity = ''MEDIUM'' then 2
         else if severity = ''LOW'' then 1
         else 0)"

definition bandit_loop :: "bandit_item list \<Rightarrow> code_issue list \<times> rat" where
  "bandit_loop results =
     foldl (\<lambda>(issues, score) item.
              (issues @ [bandit_issue item], score - bandit_deduction item))
       ([], 10) results"

subsection \<open>The parsers of output that is not JSON\<close>

text \<open>\<^verbatim>\<open>s.split(sep, maxsplit)\<close> for a separator of one character.\<close>

fun split_max :: "char \<Rightarrow> nat \<Rightarrow> string \<Rightarrow> string list" where
  "split_max sep n [] = [[]]"
| "split_max sep n (c # cs) =
     (if c = sep \<and> 0 < n then [] # split_max sep (n - 1) cs
      else (case split_max sep n cs of
              l # ls \<Rightarrow> (c # l) # ls
            | [] \<Rightarrow> [[c]]))"

text \<open>
  \<^verbatim>\<open>s.split(sep)[1]\<close> for a separator \<open>sep\<close> that is a string: what stands between the
  first occurrence of \<open>sep\<close> and the next one. \<open>None\<close> is the \<open>IndexError\<close> of a
  string without \<open>sep\<close>.
\<close>

fun after_first :: "string \<Rightarrow> string \<Rightarrow> string option" where
  "after_first sep [] = (if sep = [] then Some [] else None)"
| "after_first sep (c # cs) =
     (if prefix sep (c # cs) then Some (drop (length sep) (c # cs)) else after_first sep cs)"

fun before_first :: "string \<Rightarrow> string \<Rightarrow> string" where
  "before_first sep [] = []"
| "before_first sep (c # cs) =
     (if prefix sep (c # cs) then [] else c # before_first sep cs)"

definition split_second :: "string \<Rightarrow> string \<Rightarrow> string option" where
  "split_second sep s = map_option (before_first sep) (after_first sep s)"

definition parse_pylint_text_output :: "(string \<Rightarrow> int option) \<Rightarrow> string \<Rightarrow> code_issue list" where
  "parse_pylint_text_output py_int output =
     concat (map (\<lambda>line.
        if str_in '':'' line \<and>
           list_ex (\<lambda>keyword. str_in keyword (lower line)) [''error'', ''warning'', ''refactor'']
        then (let parts = split_max CHR '':'' 3 line
              in if 4 \<le> length parts
                 then (case py_int (parts ! 1) of
                         None \<Rightarrow> []
                       | Some line_num \<Rightarrow>
                           (let issue_type = strip (parts ! 2); message = strip (parts ! 3)
                            in [\<lparr>issue_kind = map_pylint_type issue_type,
                                 issue_severity = map_pylint_severity issue_type,
                                 issue_line = Some line_num,
                                 issue_column = None,
                                 issue_message = message,
                                 issue_suggestion = Some message,
                                 issue_rule_id = None,
                                 issue_tool = Some ''pylint''\<rparr>]))
                 else [])
        else []) (split_lines output))"

definition parse_eslint_text_output :: "(string \<Rightarrow> int option) \<Rightarrow> string \<Rightarrow> code_issue list" where
  "parse_eslint_text_output py_int output =
     concat (map (\<lambda>line.
        if str_in '':'' line \<and> (str_in ''error'' (lower line) \<or> str_in ''warning'' (lower line))
        then (let parts = split_max CHR '':'' 3 line
              in if 4 \<le> length parts
                 then (case py_int (parts ! 1) of
                         None \<Rightarrow> []
                       | Some line_num \<Rightarrow>
                           (let message = strip (parts ! 3)
                            in [\<lparr>issue_kind = STYLE_VIOLATION,
                                 issue_severity = MEDIUM,
                                 issue_line = Some line_num,
                                 issue_column = None,
                                 issue_message = message,
                                 issue_suggestion = Some message,
                                 issue_rule_id = None,
                                 issue_tool = Some ''eslint''\<rparr>]))
                 else [])
        else []) (split_lines output))"

definition parse_bandit_text_output :: "string \<Rightarrow> code_issue list" where
  "parse_bandit_text_output output =
     concat (map (\<lambda>line.
        if str_in ''>> Issue:'' line
        then (case split_second ''>> Issue:'' line of
                None \<Rightarrow> []
              | Some part \<Rightarrow>
                  (let issue_text = strip part
                   in [\<lparr>issue_kind = SECURITY_VULNERABILITY,
                        issue_severity = MEDIUM,
                        issue_line = None,
                        issue_column = None,
                        issue_message = issue_text,
                        issue_suggestion = Some issue_text,
                        issue_rule_id = None,
                        issue_tool = Some ''bandit''\<rparr>]))
        else []) (split_lines output))"

subsection \<open>Running one tool\<close>

text \<open>
  The body of the \<^verbatim>\<open>try\<close> block of \<^verbatim>\<open>_run_pylint\<close>: an exception of the process, of the
  decoder (other than \<open>JSONDecodeError\<close>, which the inner handler turns into the text
  parser) or of the constructor of the result leaves the block.
\<close>

definition run_pylint_try :: "static_env \<Rightarrow> string \<Rightarrow> py_error + static_analysis_result" where
  "run_pylint_try env code =
     (case se_subprocess_run env ''pylint'' code of
        Inl e \<Rightarrow> Inl e
      | Inr stdout \<Rightarrow>
          (case (if stdout \<noteq> []
                 then (case se_pylint_loads env stdout of
                         Inr pylint_data \<Rightarrow> Inr (pylint_loop pylint_data)
                       | Inl (JSONDecodeError m) \<Rightarrow>
                           Inr (parse_pylint_text_output (se_int env) stdout, 10)
                       | Inl e \<Rightarrow> Inl e)
                 else Inr ([], 10)) of
             Inl e \<Rightarrow> Inl e
           | Inr (issues, score) \<Rightarrow>
               StaticAnalysisResult ''pylint'' issues (max 0 score)
                 (''Pylint found '' @ str_of_nat (length issues) @ '' issues'')))"

text \<open>
  \<^verbatim>\<open>_run_pylint\<close> with its two handlers. The results they build have the score 5.0,
  which the constructor accepts.
\<close>

definition run_pylint :: "static_env \<Rightarrow> string \<Rightarrow> static_analysis_result" where
  "run_pylint env code =
     (case run_pylint_try env code of
        Inr result \<Rightarrow> result
      | Inl (TimeoutExpired m) \<Rightarrow>
          \<lparr>sa_tool = ''pylint'', sa_issues = [], sa_score = 5,
           sa_summary = ''Pylint analysis timed out''\<rparr>
      | Inl e \<Rightarrow>
          \<lparr>sa_tool = ''pylint'', sa_issues = [], sa_score = 5,
           sa_summary = ''Pylint analysis failed: '' @ error_message e\<rparr>)"

definition run_eslint_try :: "static_env \<Rightarrow> string \<Rightarrow> py_error + static_analysis_result" where
  "run_eslint_try env code =
     (case se_subprocess_run env ''eslint'' code of
        Inl e \<Rightarrow> Inl e
      | Inr stdout \<Rightarrow>
          (case (if stdout \<noteq> []
                 then (case se_eslint_loads env stdout of
                         Inr eslint_data \<Rightarrow> Inr (eslint_loop eslint_data)
                       | Inl (JSONDecodeError m) \<Rightarrow>
                           Inr (parse_eslint_text_output (se_int env) stdout, 10)
                       | Inl e \<Rightarrow> Inl e)
                 else Inr ([], 10)) of
             Inl e \<Rightarrow> Inl e
           | Inr (issues, score) \<Rightarrow>
               StaticAnalysisResult ''eslint'' issues (max 0 score)
                 (''ESLint found '' @ str_of_nat (length issues) @ '' issues'')))"

definition run_eslint :: "static_env \<Rightarrow> string \<Rightarrow> static_analysis_result" where
  "run_eslint env code =
     (case run_eslint_try env code of
        Inr result \<Rightarrow> result
      | Inl (TimeoutExpired m) \<Rightarrow>
          \<lparr>sa_tool = ''eslint'', sa_issues = [], sa_score = 5,
           sa_summary = ''ESLint analysis timed out''\<rparr>
      | Inl e \<Rightarrow>
          \<lparr>sa_tool = ''eslint'', sa_issues = [], sa_score = 5,
           sa_summary = ''ESLint analysis failed: '' @ error_message e\<rparr>)"

definition run_bandit_try :: "static_env \<Rightarrow> string \<Rightarrow> py_error + static_analysis_result" where
  "run_bandit_try env code =
     (case se_subprocess_run env ''bandit'' code of
        Inl e \<Rightarrow> Inl e
      | Inr stdout \<Rightarrow>
          (case (if stdout \<noteq> []
                 then (case se_bandit_loads env stdout of
                         Inr results \<Rightarrow> Inr (bandit_loop results)
                       | Inl (JSONDecodeError m) \<Rightarrow> Inr (parse_bandit_text_output stdout, 10)
                       | Inl e \<Rightarrow> Inl e)
                 else Inr ([], 10)) of
             Inl e \<Rightarrow> Inl e
           | Inr (issues, score) \<Rightarrow>
               StaticAnalysisResult ''bandit'' issues (max 0 score)
                 (''Bandit found '' @ str_of_nat (length issues) @ '' security issues'')))"

definition run_bandit :: "static_env \<Rightarrow> string \<Rightarrow> static_analysis_result" where
  "run_bandit env code =
     (case run_bandit_try env code of
        Inr result \<Rightarrow> result
      | Inl (TimeoutExpired m) \<Rightarrow>
          \<lparr>sa_tool = ''bandit'', sa_issues = [], sa_score = 5,
           sa_summary = ''Bandit analysis timed out''\<rparr>
      | Inl e \<Rightarrow>
          \<lparr>sa_tool = ''bandit'', sa_issues = [], sa_score = 5,
           sa_summary = ''Bandit analysis failed: '' @ error_message e\<rparr>)"

subsection \<open>\<^verbatim>\<open>StaticAnalyzer.analyze_code\<close>\<close>

text \<open>
  The temporary file is written before the tools run and removed after them, outside
  the handlers of the tools: an error there is raised to the caller.
\<close>

definition static_analyze_code ::
  "static_env \<Rightarrow> string \<Rightarrow> programming_language \<Rightarrow> py_error + static_analysis_result list" where
  "static_analyze_code env code language =
     (case se_tempfile_error env of
        Some e \<Rightarrow> Inl e
      | None \<Rightarrow>
          Inr (if language = PYTHON
               then (if se_pylint_enabled env then [run_pylint env code] else [])
                    @ (if se_bandit_enabled env then [run_bandit env code] else [])
               else if language = JAVASCRIPT \<or> language = TYPESCRIPT
               then (if se_eslint_enabled env then [run_eslint env code] else [])
               else []))"

section \<open>The AI engine (\<^verbatim>\<open>app/core/ai_engine.py\<close>)\<close>

text \<open>
  The analysis is a dictionary. Its entries are modelled with the keys the code writes
  and reads; a key that a dictionary decoded from a provider's answer may lack is
  optional. \<open>AiOther\<close> stands for a decoded JSON document that is not such a dictionary.
\<close>

record raw_issue =
  ri_type :: "string option"
  ri_severity :: "string option"
  ri_line :: "int option"
  ri_message :: "string option"
  ri_suggestion :: "string option"

record raw_suggestion =
  rs_type :: "string option"
  rs_description :: "string option"
  rs_code :: "string option"
  rs_refactored_code :: "string option"
  rs_reason :: "string option"
  rs_confidence :: "rat option"

record raw_concern =
  rc_type :: "string option"
  rc_severity :: "string option"
  rc_description :: "string option"
  rc_mitigation :: "string option"
  rc_cwe_id :: "string option"

record raw_note =
  rn_area :: "string option"
  rn_issue :: "string option"
  rn_suggestion :: "string option"
  rn_impact_level :: "string option"

record ai_dict =
  d_score :: "rat option"
  d_issues :: "raw_issue list"
  d_suggestions :: "raw_suggestion list"
  d_security_concerns :: "raw_concern list"
  d_performance_notes :: "raw_note list"
  d_readability_score :: "rat option"
  d_maintainability_score :: "rat option"
  d_summary :: "string option"
  d_raw_response :: "string option"

datatype ai_value = AiDict ai_dict | AiOther

text \<open>
  A provider's client: given the code, the language and the context (from which the
  prompt is built), the call raises or returns the text of the answer. The engine
  holds a client for each provider whose API key is configured, and \<^verbatim>\<open>json.loads\<close>.
\<close>

type_synonym client = "string \<Rightarrow> string \<Rightarrow> string option \<Rightarrow> py_error + string"

record ai_engine =
  openai_client :: "client option"
  cohere_client :: "client option"
  anthropic_client :: "client option"
  json_loads :: "string \<Rightarrow> py_error + ai_value"

subsection \<open>\<^verbatim>\<open>_parse_text_response\<close>\<close>

text \<open>
  \<^verbatim>\<open>re.search(r'\{.*\}', content, re.DOTALL)\<close>: from the first opening brace to the last
  closing brace after it.
\<close>

definition brace_fragment :: "string \<Rightarrow> string option" where
  "brace_fragment content =
     (case dropWhile (\<lambda>c. c \<noteq> CHR ''{'') content of
        [] \<Rightarrow> None
      | c # after_open \<Rightarrow>
          (case dropWhile (\<lambda>c. c \<noteq> CHR ''}'') (rev after_open) of
             [] \<Rightarrow> None
           | d # before_close \<Rightarrow> Some (c # rev (d # before_close))))"

definition fibonacci_issue :: raw_issue where
  "fibonacci_issue =
     \<lparr>ri_type = Some ''performance_issue'',
      ri_severity = Some ''high'',
      ri_line = Some 3,
      ri_message = Some ''Recursive Fibonacci has exponential time complexity O(2^n)'',
      ri_suggestion = Some ''Use iterative approach or memoization for better performance''\<rparr>"

definition iterative_code :: string where
  "iterative_code =
     ''def calculate_fibonacci(n):'' @ [CHR 0x0A] @
     ''    if n <= 1:'' @ [CHR 0x0A] @
     ''        return n'' @ [CHR 0x0A] @
     ''    a, b = 0, 1'' @ [CHR 0x0A] @
     ''    for _ in range(2, n + 1):'' @ [CHR 0x0A] @
     ''        a, b = b, a + b'' @ [CHR 0x0A] @
     ''    return b''"

definition iterative_suggestion :: raw_suggestion where
  "iterative_suggestion =
     \<lparr>rs_type = Some ''performance_optimization'',
      rs_description = Some ''Replace recursive implementation with iterative approach'',
      rs_code = Some iterative_code,
      rs_refactored_code = None,
      rs_reason = Some ''Iterative approach has O(n) time complexity vs O(2^n) for recursive'',
      rs_confidence = None\<rparr>"

definition efficiency_note :: raw_note where
  "efficiency_note =
     \<lparr>rn_area = Some ''algorithm_efficiency'',
      rn_issue = Some ''Exponential time complexity'',
      rn_suggestion = Some ''Use iterative or memoized approach'',
      rn_impact_level = None\<rparr>"

definition text_input_concern :: raw_concern where
  "text_input_concern =
     \<lparr>rc_type = Some ''input_validation'',
      rc_severity = Some ''medium'',
      rc_description = Some ''No validation for negative numbers or large inputs'',
      rc_mitigation = Some ''Add input validation and limits'',
      rc_cwe_id = None\<rparr>"

text \<open>The two tests the loop makes on a line, after \<^verbatim>\<open>strip\<close>.\<close>

definition performance_hit :: "string \<Rightarrow> string \<Rightarrow> bool" where
  "performance_hit content line \<longleftrightarrow>
     list_ex (\<lambda>keyword. str_in keyword (lower line))
       [''performance'', ''slow'', ''inefficient'', ''complexity'', ''recursive'']
     \<and> str_in ''fibonacci'' (lower content) \<and> str_in ''recursive'' (lower line)"

definition security_hit :: "string \<Rightarrow> bool" where
  "security_hit line \<longleftrightarrow>
     list_ex (\<lambda>keyword. str_in keyword (lower line))
       [''input'', ''validation'', ''security'', ''vulnerability'']"

text \<open>
  The structured response built from text. The loop skips the lines that are empty
  after \<^verbatim>\<open>strip\<close> and appends to the four lists; each list gets one entry for each line
  that passes its test, in the order of the lines.
\<close>

definition text_response :: "string \<Rightarrow> ai_dict" where
  "text_response content =
     (let lines = filter (\<lambda>line. line \<noteq> []) (map strip (split_lines content));
          performance_lines = filter (performance_hit content) lines;
          security_lines = filter security_hit lines;
          score = (if str_in ''performance'' (lower content) \<and> str_in ''recursive'' (lower content)
                   then 3 else 5)
      in \<lparr>d_score = Some score,
          d_issues = map (\<lambda>line. fibonacci_issue) performance_lines,
          d_suggestions = map (\<lambda>line. iterative_suggestion) performance_lines,
          d_security_concerns = map (\<lambda>line. text_input_concern) security_lines,
          d_performance_notes = map (\<lambda>line. efficiency_note) performance_lines,
          d_readability_score = Some 7,
          d_maintainability_score = Some 6,
          d_summary = Some (if 500 < length content then take 500 content @ ''...'' else content),
          d_raw_response = Some content\<rparr>)"

definition parse_text_response :: "ai_engine \<Rightarrow> string \<Rightarrow> py_error + ai_value" where
  "parse_text_response eng content =
     (case (case brace_fragment content of
              None \<Rightarrow> None
            | Some json_str \<Rightarrow>
                (case json_loads eng json_str of
                   Inr v \<Rightarrow> Some (Inr v)
                 | Inl (JSONDecodeError m) \<Rightarrow> None
                 | Inl e \<Rightarrow> Some (Inl e))) of
        Some r \<Rightarrow> r
      | None \<Rightarrow> Inr (AiDict (text_response content)))"

subsection \<open>\<^verbatim>\<open>_get_fallback_suggestions\<close>\<close>

definition memoized_code :: string where
  "memoized_code =
     ''from functools import lru_cache'' @ [CHR 0x0A, CHR 0x0A] @
     ''@lru_cache(maxsize=None)'' @ [CHR 0x0A] @
     ''def calculate_fibonacci(n):'' @ [CHR 0x0A] @
     ''    if n <= 1:'' @ [CHR 0x0A] @
     ''        return n'' @ [CHR 0x0A] @
     ''    return calculate_fibonacci(n-1) + calculate_fibonacci(n-2)''"

definition memoization_suggestion :: raw_suggestion where
  "memoization_suggestion =
     \<lparr>rs_type = Some ''memoization'',
      rs_description = Some ''Add memoization to recursive function'',
      rs_code = Some memoized_code,
      rs_refactored_code = None,
      rs_reason = Some ''Memoization reduces time complexity to O(n) while keeping recursive structure'',
      rs_confidence = None\<rparr>"

definition validated_main_code :: string where
  "validated_main_code =
     ''def main():'' @ [CHR 0x0A] @
     ''    try:'' @ [CHR 0x0A] @
     ''        number = int(input('' @ [CHR 0x22] @ ''Enter a number: '' @ [CHR 0x22] @ ''))'' @ [CHR 0x0A] @
     ''        if number < 0:'' @ [CHR 0x0A] @
     ''            print('' @ [CHR 0x22] @ ''Please enter a non-negative number'' @ [CHR 0x22] @ '')'' @ [CHR 0x0A] @
     ''            return'' @ [CHR 0x0A] @
     ''        if number > 1000:'' @ [CHR 0x0A] @
     ''            print('' @ [CHR 0x22] @ ''Number too large, this may cause performance issues'' @ [CHR 0x22] @ '')'' @ [CHR 0x0A] @
     ''            return'' @ [CHR 0x0A] @
     ''        result = calculate_fibonacci(number)'' @ [CHR 0x0A] @
     ''        print(f'' @ [CHR 0x22] @ ''The {number}th Fibonacci number is {result}'' @ [CHR 0x22] @ '')'' @ [CHR 0x0A] @
     ''    except ValueError:'' @ [CHR 0x0A] @
     ''        print('' @ [CHR 0x22] @ ''Please enter a valid number'' @ [CHR 0x22] @ '')'' @ [CHR 0x0A] @
     ''    except Exception as e:'' @ [CHR 0x0A] @
     ''        print(f'' @ [CHR 0x22] @ ''An error occurred: {e}'' @ [CHR 0x22] @ '')''"

definition input_validation_suggestion :: raw_suggestion where
  "input_validation_suggestion =
     \<lparr>rs_type = Some ''input_validation'',
      rs_description = Some ''Add proper input validation and error handling'',
      rs_code = Some validated_main_code,
      rs_refactored_code = None,
      rs_reason = Some ''Prevents crashes from invalid input and provides user feedback'',
      rs_confidence = None\<rparr>"

definition fallback_input_concern :: raw_concern where
  "fallback_input_concern =
     \<lparr>rc_type = Some ''input_validation'',
      rc_severity = Some ''medium'',
      rc_description = Some ''No validation for user input'',
      rc_mitigation = Some ''Add try-catch block and input validation'',
      rc_cwe_id = None\<rparr>"

definition get_fallback_suggestions :: "string \<Rightarrow> string \<Rightarrow> ai_dict" where
  "get_fallback_suggestions code language =
     (let is_python = (lower language = ''python'');
          recursive_fibonacci =
            (is_python \<and> str_in ''fibonacci'' (lower code) \<and> str_in ''def'' code
             \<and> str_in ''return'' code \<and> 1 < str_count ''calculate_fibonacci'' code);
          reads_input = (is_python \<and> str_in ''input('' code \<and> str_in ''int('' code);
          issues = (if recursive_fibonacci then [fibonacci_issue] else []);
          suggestions =
            (if recursive_fibonacci then [iterative_suggestion, memoization_suggestion] else [])
            @ (if reads_input then [input_validation_suggestion] else []);
          security_concerns = (if reads_input then [fallback_input_concern] else []);
          performance_notes = (if recursive_fibonacci then [efficiency_note] else [])
      in \<lparr>d_score = Some (if issues \<noteq> [] then 6 else 8),
          d_issues = issues,
          d_suggestions = suggestions,
          d_security_concerns = security_concerns,
          d_performance_notes = performance_notes,
          d_readability_score = Some 7,
          d_maintainability_score = Some 6,
          d_summary = Some ''Code analysis completed with specific suggestions for improvement.'',
          d_raw_response = Some ''Fallback analysis''\<rparr>)"

subsection \<open>The providers and \<^verbatim>\<open>analyze_code\<close>\<close>

definition analyze_with_openai ::
  "ai_engine \<Rightarrow> client \<Rightarrow> string \<Rightarrow> string \<Rightarrow> string option \<Rightarrow> py_error + ai_value" where
  "analyze_with_openai eng call code language ctx =
     (case call code language ctx of
        Inl e \<Rightarrow> Inl e
      | Inr content \<Rightarrow>
          (case json_loads eng content of
             Inr v \<Rightarrow> Inr v
           | Inl (JSONDecodeError m) \<Rightarrow> parse_text_response eng content
           | Inl e \<Rightarrow> Inl e))"

definition analyze_with_cohere ::
  "ai_engine \<Rightarrow> client \<Rightarrow> string \<Rightarrow> string \<Rightarrow> string option \<Rightarrow> py_error + ai_value" where
  "analyze_with_cohere eng call code language ctx =
     (case call code language ctx of
        Inl e \<Rightarrow> Inl e
      | Inr content \<Rightarrow> parse_text_response eng content)"

definition analyze_with_anthropic ::
  "ai_engine \<Rightarrow> client \<Rightarrow> string \<Rightarrow> string \<Rightarrow> string option \<Rightarrow> py_error + ai_value" where
  "analyze_with_anthropic eng call code language ctx =
     (case call code language ctx of
        Inl e \<Rightarrow> Inl e
      | Inr content \<Rightarrow> parse_text_response eng content)"

text \<open>The body of the \<^verbatim>\<open>try\<close> block of \<^verbatim>\<open>analyze_code\<close>.\<close>

definition analyze_code_try ::
  "ai_engine \<Rightarrow> string \<Rightarrow> string \<Rightarrow> string option \<Rightarrow> py_error + ai_value" where
  "analyze_code_try eng code language ctx =
     (case openai_client eng of
        Some call \<Rightarrow> analyze_with_openai eng call code language ctx
      | None \<Rightarrow>
          (case cohere_client eng of
             Some call \<Rightarrow> analyze_with_cohere eng call code language ctx
           | None \<Rightarrow>
               (case anthropic_client eng of
                  Some call \<Rightarrow> analyze_with_anthropic eng call code language ctx
                | None \<Rightarrow> Inl (ValueError ''No AI provider configured''))))"

text \<open>
  \<^verbatim>\<open>analyze_code\<close>: the handler of the \<^verbatim>\<open>try\<close> block answers every exception with the
  fallback suggestions. The result is a sum so that returning is visible as \<open>Inr\<close>.
\<close>

definition analyze_code ::
  "ai_engine \<Rightarrow> string \<Rightarrow> string \<Rightarrow> string option \<Rightarrow> py_error + ai_value" where
  "analyze_code eng code language ctx =
     (case analyze_code_try eng code language ctx of
        Inr v \<Rightarrow> Inr v
      | Inl e \<Rightarrow> Inr (AiDict (get_fallback_suggestions code language)))"

section \<open>The presenter (\<^verbatim>\<open>app/presenters/review_presenter.py\<close>)\<close>

subsection \<open>Conversion of the AI analysis into the validated classes\<close>

text \<open>A list comprehension over a conversion that may raise: the first error leaves it.\<close>

fun convert_all :: "('a \<Rightarrow> py_error + 'b) \<Rightarrow> 'a list \<Rightarrow> py_error + 'b list" where
  "convert_all f [] = Inr []"
| "convert_all f (x # xs) =
     (case f x of
        Inl e \<Rightarrow> Inl e
      | Inr y \<Rightarrow> (case convert_all f xs of Inl e \<Rightarrow> Inl e | Inr ys \<Rightarrow> Inr (y # ys)))"

definition convert_ai_issue :: "raw_issue \<Rightarrow> py_error + code_issue" where
  "convert_ai_issue issue_data =
     (case parse_issue_type (get_or (ri_type issue_data) ''style_violation'') of
        Inl e \<Rightarrow> Inl e
      | Inr t \<Rightarrow>
          (case parse_severity (get_or (ri_severity issue_data) ''medium'') of
             Inl e \<Rightarrow> Inl e
           | Inr sev \<Rightarrow>
               Inr \<lparr>issue_kind = t,
                    issue_severity = sev,
                    issue_line = ri_line issue_data,
                    issue_column = None,
                    issue_message = get_or (ri_message issue_data) '''',
                    issue_suggestion = ri_suggestion issue_data,
                    issue_rule_id = None,
                    issue_tool = Some ''ai_engine''\<rparr>))"

definition convert_ai_suggestion :: "raw_suggestion \<Rightarrow> py_error + code_suggestion" where
  "convert_ai_suggestion suggestion_data =
     (let confidence = get_or (rs_confidence suggestion_data) (8 / 10)
      in if 0 \<le> confidence \<and> confidence \<le> 1
         then Inr \<lparr>sugg_kind = get_or (rs_type suggestion_data) ''improvement'',
                   sugg_description = get_or (rs_description suggestion_data) '''',
                   sugg_refactored_code = rs_refactored_code suggestion_data,
                   sugg_reason = get_or (rs_reason suggestion_data) '''',
                   sugg_confidence = confidence\<rparr>
         else Inl (ValidationError ''confidence''))"

definition convert_security_concern :: "raw_concern \<Rightarrow> py_error + security_concern" where
  "convert_security_concern concern_data =
     (case parse_severity (get_or (rc_severity concern_data) ''medium'') of
        Inl e \<Rightarrow> Inl e
      | Inr sev \<Rightarrow>
          Inr \<lparr>concern_kind = get_or (rc_type concern_data) ''vulnerability'',
               concern_severity = sev,
               concern_description = get_or (rc_description concern_data) '''',
               concern_mitigation = get_or (rc_mitigation concern_data) '''',
               concern_cwe_id = rc_cwe_id concern_data\<rparr>)"

definition convert_performance_note :: "raw_note \<Rightarrow> py_error + performance_note" where
  "convert_performance_note note_data =
     Inr \<lparr>note_area = get_or (rn_area note_data) ''general'',
          note_issue = get_or (rn_issue note_data) '''',
          note_suggestion = get_or (rn_suggestion note_data) '''',
          note_impact_level = get_or (rn_impact_level note_data) ''medium''\<rparr>"

text \<open>
  \<^verbatim>\<open>_convert_ai_analysis\<close>. The constructor \<^verbatim>\<open>AIAnalysisResult\<close> checks the three scores;
  on a value that is no dictionary \<^verbatim>\<open>.get\<close> raises.
\<close>

definition convert_ai_analysis :: "ai_value \<Rightarrow> py_error + ai_analysis_result" where
  "convert_ai_analysis ai_data =
     (case ai_data of
        AiOther \<Rightarrow> Inl (OtherError ''not a dictionary'')
      | AiDict d \<Rightarrow>
          (case convert_all convert_ai_issue (d_issues d) of
             Inl e \<Rightarrow> Inl e
           | Inr issues \<Rightarrow>
          (case convert_all convert_ai_suggestion (d_suggestions d) of
             Inl e \<Rightarrow> Inl e
           | Inr suggestions \<Rightarrow>
          (case convert_all convert_security_concern (d_security_concerns d) of
             Inl e \<Rightarrow> Inl e
           | Inr security_concerns \<Rightarrow>
          (case convert_all convert_performance_note (d_performance_notes d) of
             Inl e \<Rightarrow> Inl e
           | Inr performance_notes \<Rightarrow>
               (let score = get_or (d_score d) 5;
                    readability_score = get_or (d_readability_score d) 5;
                    maintainability_score = get_or (d_maintainability_score d) 5
                in if score_in_range score \<and> score_in_range readability_score
                      \<and> score_in_range maintainability_score
                   then Inr \<lparr>air_score = score,
                             air_issues = issues,
                             air_suggestions = suggestions,
                             air_security_concerns = security_concerns,
                             air_performance_notes = performance_notes,
                             air_readability_score = readability_score,
                             air_maintainability_score = maintainability_score,
                             air_summary = get_or (d_summary d) '''',
                             air_raw_response = d_raw_response d\<rparr>
                   else Inl (ValidationError ''score'')))))))"

subsection \<open>Combining the results\<close>

definition combine_issues ::
  "static_analysis_result list \<Rightarrow> ai_analysis_result option \<Rightarrow> code_issue list" where
  "combine_issues static_results ai_result =
     concat (map sa_issues static_results)
     @ (case ai_result of Some r \<Rightarrow> air_issues r | None \<Rightarrow> [])"

definition extract_suggestions :: "ai_analysis_result option \<Rightarrow> code_suggestion list" where
  "extract_suggestions ai_result = (case ai_result of Some r \<Rightarrow> air_suggestions r | None \<Rightarrow> [])"

definition extract_security_concerns :: "ai_analysis_result option \<Rightarrow> security_concern list" where
  "extract_security_concerns ai_result =
     (case ai_result of Some r \<Rightarrow> air_security_concerns r | None \<Rightarrow> [])"

text \<open>The entry \<^verbatim>\<open>'critical'\<close> of \<^verbatim>\<open>_count_issues_by_severity\<close>, the only one read.\<close>

definition count_critical :: "code_issue list \<Rightarrow> nat" where
  "count_critical issues = length (filter (\<lambda>i. severity_value (issue_severity i) = ''critical'') issues)"

text \<open>
  Lines 97 to 100 of \<^verbatim>\<open>review_code\<close>: the scores of the static results, the score of the
  AI result or 5.0 without one, and the overall score.
\<close>

definition review_overall_score ::
  "static_analysis_result list \<Rightarrow> ai_analysis_result option \<Rightarrow> rat" where
  "review_overall_score static_results ai_result =
     (let static_scores = map sa_score static_results;
          ai_score = (case ai_result of Some r \<Rightarrow> air_score r | None \<Rightarrow> 5)
      in calculate_overall_score static_scores ai_score)"

subsection \<open>\<^verbatim>\<open>_generate_recommendations\<close>\<close>

definition focus_recommendation :: "string \<Rightarrow> string list" where
  "focus_recommendation area =
     (if area = ''performance'' then [''Consider performance optimizations'']
      else if area = ''readability'' then [''Improve code readability and documentation'']
      else if area = ''security'' then [''Conduct thorough security review'']
      else [])"

definition all_recommendations ::
  "code_issue list \<Rightarrow> code_suggestion list \<Rightarrow> string list option \<Rightarrow> string list" where
  "all_recommendations issues suggestions focus_areas =
     (let critical_issues = filter (\<lambda>i. severity_value (issue_severity i) = ''critical'') issues;
          security_issues =
            filter (\<lambda>i. issue_type_value (issue_kind i) = ''security_vulnerability'') issues
      in (if critical_issues \<noteq> []
          then [''Address '' @ str_of_nat (length critical_issues) @ '' critical issues immediately'']
          else [])
         @ (if security_issues \<noteq> []
            then [''Review and fix '' @ str_of_nat (length security_issues)
                  @ '' security vulnerabilities'']
            else [])
         @ (case focus_areas of
              None \<Rightarrow> []
            | Some areas \<Rightarrow> concat (map focus_recommendation areas))
         @ (if suggestions \<noteq> []
            then [''Implement '' @ str_of_nat (length suggestions) @ '' improvement suggestions'']
            else []))"

definition generate_recommendations ::
  "code_issue list \<Rightarrow> code_suggestion list \<Rightarrow> string list option \<Rightarrow> string list" where
  "generate_recommendations issues suggestions focus_areas =
     take 5 (all_recommendations issues suggestions focus_areas)"

subsection \<open>\<^verbatim>\<open>review_code\<close>\<close>

text \<open>
  The environment of a review: the two analyzers with theirs, and the setting
  \<^verbatim>\<open>MAX_FILE_SIZE_MB\<close>.
\<close>

record review_env =
  rv_static :: static_env
  rv_engine :: ai_engine
  rv_max_file_size_mb :: nat

definition validate_review_request :: "review_env \<Rightarrow> code_review_request \<Rightarrow> py_error + unit" where
  "validate_review_request env request =
     (if strip (req_code request) = [] then Inl (ValueError ''Code cannot be empty'')
      else if rv_max_file_size_mb env * 1024 * 1024 < length (req_code request)
      then Inl (ValueError (''Code size exceeds maximum limit of ''
                            @ str_of_nat (rv_max_file_size_mb env) @ ''MB''))
      else Inr ())"

definition store_review_history ::
  "review_history list \<Rightarrow> code_review_response \<Rightarrow> review_history list" where
  "store_review_history history response =
     (let history_item =
            \<lparr>hist_file_name = resp_file_name response,
             hist_language = resp_language response,
             hist_overall_score = resp_overall_score response,
             hist_total_issues = resp_total_issues response,
             hist_summary = resp_summary response\<rparr>;
          appended = history @ [history_item]
      in if 100 < length appended then drop (length appended - 100) appended else appended)"

text \<open>
  The static analysis of a request, with the handler around it: an exception of the
  analyzer leaves no results.
\<close>

definition review_static_results ::
  "review_env \<Rightarrow> code_review_request \<Rightarrow> string \<Rightarrow> static_analysis_result list" where
  "review_static_results env request sanitized_code =
     (if req_include_static_analysis request
      then (case static_analyze_code (rv_static env) sanitized_code (req_language request) of
              Inr results \<Rightarrow> results
            | Inl e \<Rightarrow> [])
      else [])"

text \<open>
  The AI analysis of a request, with the handler around it: an exception of the engine
  or of the conversion leaves no AI result.
\<close>

definition review_ai_result ::
  "review_env \<Rightarrow> code_review_request \<Rightarrow> string \<Rightarrow> ai_analysis_result option" where
  "review_ai_result env request sanitized_code =
     (if req_include_ai_analysis request
      then (case analyze_code (rv_engine env) sanitized_code
                   (language_value (req_language request)) (req_context request) of
              Inl e \<Rightarrow> None
            | Inr ai_analysis_data \<Rightarrow>
                (case convert_ai_analysis ai_analysis_data of
                   Inl e \<Rightarrow> None
                 | Inr r \<Rightarrow> Some r))
      else None)"

text \<open>
  \<^verbatim>\<open>review_code\<close>, on the history of the presenter: the new history and the response or
  the exception raised. The code metrics computed from the sanitized code are used
  nowhere and are left out.
\<close>

definition review_code ::
  "review_env \<Rightarrow> review_history list \<Rightarrow> code_review_request \<Rightarrow>
   review_history list \<times> (py_error + code_review_response)" where
  "review_code env history request =
     (case validate_review_request env request of
        Inl e \<Rightarrow> (history, Inl e)
      | Inr u \<Rightarrow>
          (let sanitized_code = sanitize_code (req_code request);
               static_results = review_static_results env request sanitized_code;
               ai_result = review_ai_result env request sanitized_code;
               tools_used = map sa_tool static_results
                            @ (if ai_result \<noteq> None then [''ai_engine''] else []);
               all_issues = combine_issues static_results ai_result;
               all_suggestions = extract_suggestions ai_result;
               security_concerns = extract_security_concerns ai_result;
               overall_score = review_overall_score static_results ai_result;
               summary = generate_summary all_issues all_suggestions overall_score;
               recommendations =
                 generate_recommendations all_issues all_suggestions (req_focus_areas request)
           in case CodeReviewResponse
                     \<lparr>resp_language = req_language request,
                      resp_file_name = req_file_name request,
                      resp_static_analysis =
                        (case static_results of [] \<Rightarrow> None | r # rs \<Rightarrow> Some r),
                      resp_ai_analysis = ai_result,
                      resp_overall_score = overall_score,
                      resp_total_issues = length all_issues,
                      resp_critical_issues = count_critical all_issues,
                      resp_security_issues = length security_concerns,
                      resp_summary = summary,
                      resp_recommendations = recommendations,
                      resp_tools_used = tools_used\<rparr> of
                Inl e \<Rightarrow> (history, Inl e)
              | Inr response \<Rightarrow> (store_review_history history response, Inr response)))"

subsection \<open>\<^verbatim>\<open>batch_review\<close>\<close>

text \<open>\<^verbatim>\<open>f"{x:.1f}"\<close> for a number that is not negative.\<close>

definition format_1f :: "rat \<Rightarrow> string" where
  "format_1f x =
     (let tenths = nat (round_half_even (x * 10))
      in str_of_nat (tenths div 10) @ ''.'' @ str_of_nat (tenths mod 10))"

definition generate_batch_summary :: "code_review_response list \<Rightarrow> nat \<Rightarrow> nat \<Rightarrow> string" where
  "generate_batch_summary reviews successful failed =
     (let counts = ''Batch review completed: '' @ str_of_nat successful @ '' successful, ''
                   @ str_of_nat failed @ '' failed''
      in if reviews = [] then counts
         else (let avg_score = sum_list (map resp_overall_score reviews) / of_nat (length reviews);
                   total_issues = sum_list (map resp_total_issues reviews)
               in counts @ ''. Average score: '' @ format_1f avg_score
                  @ '', Total issues: '' @ str_of_nat total_issues))"

text \<open>
  One turn of the loop of \<^verbatim>\<open>batch_review\<close>: the request of the file is built (a missing
  key, an empty code or an unknown language raises) and reviewed.
\<close>

definition individual_request ::
  "batch_review_request \<Rightarrow> file_data \<Rightarrow> py_error + code_review_request" where
  "individual_request request file =
     (case file_code file of
        None \<Rightarrow> Inl (KeyError ''code'')
      | Some code \<Rightarrow>
          (case file_language file of
             None \<Rightarrow> Inl (KeyError ''language'')
           | Some language \<Rightarrow>
               (case parse_language language of
                  Inl e \<Rightarrow> Inl e
                | Inr lang \<Rightarrow>
                    CodeReviewRequest code lang (file_file_name file) (file_context file)
                      (batch_include_static_analysis request)
                      (batch_include_ai_analysis request)
                      (batch_focus_areas request))))"

definition review_file ::
  "review_env \<Rightarrow> batch_review_request \<Rightarrow> review_history list \<Rightarrow> file_data \<Rightarrow>
   review_history list \<times> (py_error + code_review_response)" where
  "review_file env request history file =
     (case individual_request request file of
        Inl e \<Rightarrow> (history, Inl e)
      | Inr individual \<Rightarrow> review_code env history individual)"

text \<open>
  The loop: the state is the history, the reviews so far and the two counters. The
  handler inside the loop counts the exception and goes on with the next file.
\<close>

fun batch_loop ::
  "review_env \<Rightarrow> batch_review_request \<Rightarrow>
   review_history list \<times> code_review_response list \<times> nat \<times> nat \<Rightarrow> file_data list \<Rightarrow>
   review_history list \<times> code_review_response list \<times> nat \<times> nat" where
  "batch_loop env request state [] = state"
| "batch_loop env request (history, reviews, successful_reviews, failed_reviews) (file # files) =
     (case review_file env request history file of
        (history', Inr review_response) \<Rightarrow>
          batch_loop env request
            (history', reviews @ [review_response], successful_reviews + 1, failed_reviews) files
      | (history', Inl e) \<Rightarrow>
          batch_loop env request (history', reviews, successful_reviews, failed_reviews + 1) files)"

definition batch_review ::
  "review_env \<Rightarrow> review_history list \<Rightarrow> batch_review_request \<Rightarrow>
   review_history list \<times> batch_review_response" where
  "batch_review env history request =
     (case batch_loop env request (history, [], 0, 0) (batch_files request) of
        (history', reviews, successful_reviews, failed_reviews) \<Rightarrow>
          (history',
           \<lparr>batch_total_files = length (batch_files request),
            batch_successful_reviews = successful_reviews,
            batch_failed_reviews = failed_reviews,
            batch_reviews = reviews,
            batch_overall_summary =
              generate_batch_summary reviews successful_reviews failed_reviews\<rparr>))"

section \<open>The formulas of the specification\<close>

text \<open>
  The definitions of this section follow the words of the specification, not the code.
  The theorems compare them with the definitions above.
\<close>

text \<open>
  The overall score of the specification: 0.6 times the mean of the static scores (5.0
  for no static score) plus 0.4 times the AI score (5.0 without an AI result), rounded
  to two decimal places.
\<close>

definition spec_overall_score :: "rat list \<Rightarrow> rat option \<Rightarrow> rat" where
  "spec_overall_score S a =
     round2 (6 / 10 * (if S = [] then 5 else sum_list S / of_nat (length S))
             + 4 / 10 * (case a of Some x \<Rightarrow> x | None \<Rightarrow> 5))"

text \<open>
  The per-tool score of the specification: 10.0 less a weight for each reported issue
  (critical 3, high 2, medium 1, low 0.5), not below 0.0.
\<close>

fun spec_severity_weight :: "severity_level \<Rightarrow> rat" where
  "spec_severity_weight CRITICAL = 3"
| "spec_severity_weight HIGH = 2"
| "spec_severity_weight MEDIUM = 1"
| "spec_severity_weight LOW = 1 / 2"

definition spec_tool_score :: "code_issue list \<Rightarrow> rat" where
  "spec_tool_score issues =
     max 0 (10 - sum_list (map (\<lambda>i. spec_severity_weight (issue_severity i)) issues))"

text \<open>A score brought into \<open>[0, 10]\<close>, and the overall score of clamped constituents.\<close>

definition spec_clamp :: "rat \<Rightarrow> rat" where
  "spec_clamp s = max 0 (min 10 s)"

definition spec_clamped_overall_score :: "rat list \<Rightarrow> rat option \<Rightarrow> rat" where
  "spec_clamped_overall_score S a = spec_overall_score (map spec_clamp S) (map_option spec_clamp a)"

text \<open>
  The provider chain of the specification. The attempts are what each configured
  provider would answer, in the order of priority; the chain returns the first attempt
  that is a result and the fallback suggestions when there is none.
\<close>

definition provider_attempts ::
  "ai_engine \<Rightarrow> string \<Rightarrow> string \<Rightarrow> string option \<Rightarrow> (py_error + ai_value) list" where
  "provider_attempts eng code language ctx =
     (case openai_client eng of
        Some call \<Rightarrow> [analyze_with_openai eng call code language ctx] | None \<Rightarrow> [])
     @ (case cohere_client eng of
          Some call \<Rightarrow> [analyze_with_cohere eng call code language ctx] | None \<Rightarrow> [])
     @ (case anthropic_client eng of
          Some call \<Rightarrow> [analyze_with_anthropic eng call code language ctx] | None \<Rightarrow> [])"


text \<open>
  The recognized focus areas (the list \<^verbatim>\<open>valid_areas\<close> of \<^verbatim>\<open>validate_focus_areas\<close> in
  \<^verbatim>\<open>review_model.py\<close>, the same set as in the specification).
\<close>

definition valid_areas :: "string list" where
  "valid_areas =
     [''security'', ''performance'', ''readability'', ''maintainability'', ''style'',
      ''documentation'']"

section \<open>Sample values\<close>


definition sample_static_result :: "rat \<Rightarrow> static_analysis_result" where
  "sample_static_result s =
     \<lparr>sa_tool = ''pylint'', sa_issues = [], sa_score = s, sa_summary = []\<rparr>"

text \<open>
  An environment in which every tool prints the same JSON document, decoded to the
  given items, and runs without error.
\<close>

definition sample_static_env ::
  "pylint_item list \<Rightarrow> eslint_message list list \<Rightarrow> bandit_item list \<Rightarrow> static_env" where
  "sample_static_env pylint_data eslint_data results =
     \<lparr>se_pylint_enabled = True,
      se_eslint_enabled = True,
      se_bandit_enabled = True,
      se_tempfile_error = None,
      se_subprocess_run = (\<lambda>command code. Inr ''[{}]''),
      se_pylint_loads = (\<lambda>stdout. Inr pylint_data),
      se_eslint_loads = (\<lambda>stdout. Inr eslint_data),
      se_bandit_loads = (\<lambda>stdout. Inr results),
      se_int = (\<lambda>s. None)\<rparr>"

definition sample_pylint_item :: "string \<Rightarrow> pylint_item" where
  "sample_pylint_item t =
     \<lparr>pl_type = Some t, pl_line = Some 1, pl_column = Some 0,
      pl_message = Some ''message'', pl_message_id = Some ''X0001''\<rparr>"


definition sample_issue :: "issue_type \<Rightarrow> severity_level \<Rightarrow> code_issue" where
  "sample_issue t sev =
     \<lparr>issue_kind = t, issue_severity = sev, issue_line = None, issue_column = None,
      issue_message = ''message'', issue_suggestion = None, issue_rule_id = None,
      issue_tool = Some ''bandit''\<rparr>"

definition sample_dict :: "rat \<Rightarrow> ai_dict" where
  "sample_dict s =
     \<lparr>d_score = Some s, d_issues = [], d_suggestions = [], d_security_concerns = [],
      d_performance_notes = [], d_readability_score = None, d_maintainability_score = None,
      d_summary = None, d_raw_response = None\<rparr>"

text \<open>
  The text \<^verbatim>\<open>{"score": 15}\<close>, and an engine with the three clients given, whose
  \<^verbatim>\<open>json.loads\<close> decodes exactly that text, to the dictionary with that score, and
  no other text.
\<close>

definition score15_text :: string where
  "score15_text = ''{'' @ [CHR 0x22] @ ''score'' @ [CHR 0x22] @ '': 15}''"

definition sample_engine :: "client option \<Rightarrow> client option \<Rightarrow> client option \<Rightarrow> ai_engine" where
  "sample_engine openai cohere anthropic =
     \<lparr>openai_client = openai,
      cohere_client = cohere,
      anthropic_client = anthropic,
      json_loads = (\<lambda>s. if s = score15_text
                           then Inr (AiDict (sample_dict 15))
                           else Inl (JSONDecodeError ''Expecting value''))\<rparr>"

definition sample_review_env :: "ai_engine \<Rightarrow> review_env" where
  "sample_review_env eng =
     \<lparr>rv_static = sample_static_env [] [] [], rv_engine = eng, rv_max_file_size_mb = 10\<rparr>"

definition sample_request :: "string \<Rightarrow> bool \<Rightarrow> code_review_request" where
  "sample_request code with_static =
     \<lparr>req_code = code, req_language = PYTHON, req_context = None, req_file_name = None,
      req_include_static_analysis = with_static, req_include_ai_analysis = True,
      req_focus_areas = None\<rparr>"

definition sample_file :: "string \<Rightarrow> file_data" where
  "sample_file code =
     \<lparr>file_code = Some code, file_language = Some ''python'', file_file_name = None,
      file_context = None\<rparr>"

definition recursive_fibonacci_code :: string where
  "recursive_fibonacci_code =
     ''def calculate_fibonacci(n):'' @ [CHR 0x0A] @
     ''    return calculate_fibonacci(n - 1) + calculate_fibonacci(n - 2)''"

definition sample_batch :: batch_review_request where
  "sample_batch =
     \<lparr>batch_files = [sample_file ''x = 1'', sample_file [], sample_file ''x = 1''],
      batch_include_static_analysis = True, batch_include_ai_analysis = True,
      batch_focus_areas = None\<rparr>"

section \<open>Predicates of the statements\<close>

text \<open>
  A file of a batch that can be reviewed: it has a code that is not blank and not over
  the size limit, and a language of the enumeration.
\<close>

definition file_valid :: "review_env \<Rightarrow> file_data \<Rightarrow> bool" where
  "file_valid env file =
     (case file_code file of
        None \<Rightarrow> False
      | Some code \<Rightarrow>
          (case file_language file of
             None \<Rightarrow> False
           | Some language \<Rightarrow>
               \<not> isl (parse_language language) \<and> strip code \<noteq> []
               \<and> length code \<le> rv_max_file_size_mb env * 1024 * 1024))"

text \<open>The review of one file of a batch taken alone, on an empty history.\<close>

definition file_reviews :: "review_env \<Rightarrow> batch_review_request \<Rightarrow> file_data \<Rightarrow> code_review_response list" where
  "file_reviews env request file =
     (case snd (review_file env request [] file) of Inr r \<Rightarrow> [r] | Inl e \<Rightarrow> [])"

text \<open>
  A string contains a match of a regular expression: \<^verbatim>\<open>re.search\<close> succeeds, at some
  position of the string.
\<close>

fun has_match :: "regex_item list \<Rightarrow> string \<Rightarrow> bool" where
  "has_match p [] = (re_match p [] \<noteq> None)"
| "has_match p (c # cs) = (re_match p (c # cs) \<noteq> None \<or> has_match p cs)"

text \<open>
  The expressions that end in \<^verbatim>\<open>[^"\']+["\']\<close> after items that never take the
  character \<^verbatim>\<open>*\<close>, with which the replacement text begins.
\<close>

fun redaction_safe :: "regex_item list \<Rightarrow> bool" where
  "redaction_safe [] = False"
| "redaction_safe (One k # r) = (\<not> class_matches k CHR ''*'' \<and> redaction_safe r)"
| "redaction_safe (Opt k # r) = (\<not> class_matches k CHR ''*'' \<and> redaction_safe r)"
| "redaction_safe (Star k # r) = (\<not> class_matches k CHR ''*'' \<and> redaction_safe r)"
| "redaction_safe (Plus k # r) = (k = NotQuote \<and> r = [One Quote])"

text \<open>
  \<open>redacts s u\<close>: the string \<open>u\<close> comes from \<open>s\<close> by replacing some parts by the
  replacement text, each part starting with a character that is no quote and holding
  a quote, as every match of one of the five expressions does.
\<close>

inductive redacts :: "string \<Rightarrow> string \<Rightarrow> bool" where
  redacts_Nil: "redacts [] []"
| redacts_keep: "redacts s u \<Longrightarrow> redacts (c # s) (c # u)"
| redacts_cut:
    "m \<noteq> [] \<Longrightarrow> \<not> is_quote (hd m) \<Longrightarrow> list_ex is_quote m \<Longrightarrow> redacts s u \<Longrightarrow>
     redacts (m @ s) (REDACTED @ u)"

section \<open>The overall score\<close>





section \<open>The static tool runner\<close>

lemma score_loop:
  "foldl (\<lambda>(issues, score) item. (issues @ [f item], score - d item)) (is0, s0::rat) items
     = (is0 @ map f items, s0 - sum_list (map d items))"
  by (induction items arbitrary: is0 s0) (simp_all add: algebra_simps)

lemma pylint_loop_eq:
  "pylint_loop items = (map pylint_issue items, 10 - sum_list (map pylint_deduction items))"
  unfolding pylint_loop_def using score_loop [of pylint_issue pylint_deduction "[]" 10 items]
  by simp

lemma bandit_loop_eq:
  "bandit_loop items = (map bandit_issue items, 10 - sum_list (map bandit_deduction items))"
  unfolding bandit_loop_def using score_loop [of bandit_issue bandit_deduction "[]" 10 items]
  by simp

lemma eslint_loop_gen:
  "foldl (\<lambda>acc file_messages.
              foldl (\<lambda>(issues, score) message.
                       (issues @ [eslint_issue message], score - eslint_deduction message))
                acc file_messages) (is0, s0::rat) files
   = (is0 @ map eslint_issue (concat files),
      s0 - sum_list (map eslint_deduction (concat files)))"
proof (induction files arbitrary: is0 s0)
  case Nil
  show ?case by simp
next
  case (Cons ms files)
  show ?case
    by (simp add: score_loop Cons.IH algebra_simps)
qed

lemma eslint_loop_eq:
  "eslint_loop files = (map eslint_issue (concat files),
                        10 - sum_list (map eslint_deduction (concat files)))"
  unfolding eslint_loop_def using eslint_loop_gen [of "[]" 10 files] by simp

lemma pylint_deduction_nonneg: "0 \<le> pylint_deduction item"
  by (simp add: pylint_deduction_def)

lemma bandit_deduction_nonneg: "0 \<le> bandit_deduction item"
  by (simp add: bandit_deduction_def Let_def)

lemma eslint_deduction_nonneg: "0 \<le> eslint_deduction item"
  by (simp add: eslint_deduction_def)

lemma sum_list_nonneg_rat: "(\<And>x. 0 \<le> d x) \<Longrightarrow> (0::rat) \<le> sum_list (map d xs)"
  by (induction xs) simp_all

lemma StaticAnalysisResult_score:
  "StaticAnalysisResult t issues sc sm = Inr r \<Longrightarrow> score_in_range (sa_score r)"
  by (auto simp: StaticAnalysisResult_def split: if_splits)

lemma run_pylint_score: "score_in_range (sa_score (run_pylint env code))"
proof (cases "run_pylint_try env code")
  case (Inl e)
  then show ?thesis
    by (cases e) (simp_all add: run_pylint_def score_in_range_def)
next
  case (Inr r)
  then have "score_in_range (sa_score r)"
    by (auto simp: run_pylint_try_def dest: StaticAnalysisResult_score
        split: sum.splits if_splits prod.splits py_error.splits)
  with Inr show ?thesis by (simp add: run_pylint_def)
qed

lemma run_bandit_score: "score_in_range (sa_score (run_bandit env code))"
proof (cases "run_bandit_try env code")
  case (Inl e)
  then show ?thesis
    by (cases e) (simp_all add: run_bandit_def score_in_range_def)
next
  case (Inr r)
  then have "score_in_range (sa_score r)"
    by (auto simp: run_bandit_try_def dest: StaticAnalysisResult_score
        split: sum.splits if_splits prod.splits py_error.splits)
  with Inr show ?thesis by (simp add: run_bandit_def)
qed

lemma run_eslint_score: "score_in_range (sa_score (run_eslint env code))"
proof (cases "run_eslint_try env code")
  case (Inl e)
  then show ?thesis
    by (cases e) (simp_all add: run_eslint_def score_in_range_def)
next
  case (Inr r)
  then have "score_in_range (sa_score r)"
    by (auto simp: run_eslint_try_def dest: StaticAnalysisResult_score
        split: sum.splits if_splits prod.splits py_error.splits)
  with Inr show ?thesis by (simp add: run_eslint_def)
qed

lemma floor_score_in_range: "s \<le> 10 \<Longrightarrow> score_in_range (max 0 s)"
  by (simp add: score_in_range_def)

lemma run_pylint_json:
  assumes "se_subprocess_run env ''pylint'' code = Inr out" "out \<noteq> []"
    "se_pylint_loads env out = Inr items"
  shows "run_pylint env code =
     \<lparr>sa_tool = ''pylint'', sa_issues = map pylint_issue items,
      sa_score = max 0 (10 - sum_list (map pylint_deduction items)),
      sa_summary = ''Pylint found '' @ str_of_nat (length items) @ '' issues''\<rparr>"
proof -
  have "0 \<le> sum_list (map pylint_deduction items)"
    by (rule sum_list_nonneg_rat) (rule pylint_deduction_nonneg)
  then have "score_in_range (max 0 (10 - sum_list (map pylint_deduction items)))"
    by (simp add: score_in_range_def)
  with assms show ?thesis
    by (simp add: run_pylint_def run_pylint_try_def pylint_loop_eq StaticAnalysisResult_def)
qed

lemma run_bandit_json:
  assumes "se_subprocess_run env ''bandit'' code = Inr out" "out \<noteq> []"
    "se_bandit_loads env out = Inr items"
  shows "run_bandit env code =
     \<lparr>sa_tool = ''bandit'', sa_issues = map bandit_issue items,
      sa_score = max 0 (10 - sum_list (map bandit_deduction items)),
      sa_summary = ''Bandit found '' @ str_of_nat (length items) @ '' security issues''\<rparr>"
proof -
  have "0 \<le> sum_list (map bandit_deduction items)"
    by (rule sum_list_nonneg_rat) (rule bandit_deduction_nonneg)
  then have "score_in_range (max 0 (10 - sum_list (map bandit_deduction items)))"
    by (simp add: score_in_range_def)
  with assms show ?thesis
    by (simp add: run_bandit_def run_bandit_try_def bandit_loop_eq StaticAnalysisResult_def)
qed

lemma run_eslint_json:
  assumes "se_subprocess_run env ''eslint'' code = Inr out" "out \<noteq> []"
    "se_eslint_loads env out = Inr files"
  shows "run_eslint env code =
     \<lparr>sa_tool = ''eslint'', sa_issues = map eslint_issue (concat files),
      sa_score = max 0 (10 - sum_list (map eslint_deduction (concat files))),
      sa_summary = ''ESLint found '' @ str_of_nat (length (concat files)) @ '' issues''\<rparr>"
proof -
  have "0 \<le> sum_list (map eslint_deduction (concat files))"
    by (rule sum_list_nonneg_rat) (rule eslint_deduction_nonneg)
  then have "score_in_range (max 0 (10 - sum_list (map eslint_deduction (concat files))))"
    by (simp add: score_in_range_def)
  with assms show ?thesis
    by (simp add: run_eslint_def run_eslint_try_def eslint_loop_eq StaticAnalysisResult_def)
qed

lemma floored_score_antimono:
  assumes "\<And>x. 0 \<le> d x"
  shows "max 0 (10 - sum_list (map d (items @ extra))) \<le> max (0::rat) (10 - sum_list (map d items))"
proof -
  have "0 \<le> sum_list (map d extra)"
    by (rule sum_list_nonneg_rat) (rule assms)
  then show ?thesis by simp
qed

text \<open>
  Claim C4, as the code has it. When a tool prints JSON, the result holds one issue for
  each decoded item and the score is 10.0 less a deduction for each item, not below
  0.0. The deduction is looked up from what the tool itself reports, not from the
  severity of the issue: for Pylint 2 for the types error and fatal, 1 for warning,
  0.5 for refactor and 0 for any other; for Bandit 3, 2 and 1 for the severities HIGH,
  MEDIUM and LOW (MEDIUM when the key is missing) and 0 for any other; for ESLint 2
  and 1 for the severities 2 and 1 and 0 otherwise. More items never make the score
  larger, and the score of every run of a tool, whatever its outcome, lies in
  \<open>[0, 10]\<close>.
\<close>
theorem tool_score_by_deductions:
  "(se_subprocess_run env ''pylint'' code = Inr out \<and> out \<noteq> [] \<and> se_pylint_loads env out = Inr pylint_data
      \<longrightarrow> sa_issues (run_pylint env code) = map pylint_issue pylint_data
        \<and> sa_score (run_pylint env code) = max 0 (10 - sum_list (map pylint_deduction pylint_data)))
   \<and> (se_subprocess_run env ''bandit'' code = Inr out \<and> out \<noteq> [] \<and> se_bandit_loads env out = Inr results
      \<longrightarrow> sa_issues (run_bandit env code) = map bandit_issue results
        \<and> sa_score (run_bandit env code) = max 0 (10 - sum_list (map bandit_deduction results)))
   \<and> (se_subprocess_run env ''eslint'' code = Inr out \<and> out \<noteq> [] \<and> se_eslint_loads env out = Inr eslint_data
      \<longrightarrow> sa_issues (run_eslint env code) = map eslint_issue (concat eslint_data)
        \<and> sa_score (run_eslint env code)
            = max 0 (10 - sum_list (map eslint_deduction (concat eslint_data))))
   \<and> max 0 (10 - sum_list (map pylint_deduction (pylint_data @ more_pylint)))
       \<le> max 0 (10 - sum_list (map pylint_deduction pylint_data))
   \<and> max 0 (10 - sum_list (map bandit_deduction (results @ more_results)))
       \<le> max 0 (10 - sum_list (map bandit_deduction results))
   \<and> max 0 (10 - sum_list (map eslint_deduction (concat (eslint_data @ more_eslint))))
       \<le> max 0 (10 - sum_list (map eslint_deduction (concat eslint_data)))
   \<and> score_in_range (sa_score (run_pylint env code))
   \<and> score_in_range (sa_score (run_bandit env code))
   \<and> score_in_range (sa_score (run_eslint env code))"
proof (intro conjI impI)
  show "max 0 (10 - sum_list (map pylint_deduction (pylint_data @ more_pylint)))
       \<le> max 0 (10 - sum_list (map pylint_deduction pylint_data))"
    by (rule floored_score_antimono) (rule pylint_deduction_nonneg)
  show "max 0 (10 - sum_list (map bandit_deduction (results @ more_results)))
       \<le> max 0 (10 - sum_list (map bandit_deduction results))"
    by (rule floored_score_antimono) (rule bandit_deduction_nonneg)
  show "max 0 (10 - sum_list (map eslint_deduction (concat (eslint_data @ more_eslint))))
       \<le> max 0 (10 - sum_list (map eslint_deduction (concat eslint_data)))"
    using floored_score_antimono [of eslint_deduction "concat eslint_data" "concat more_eslint"]
    by (simp add: eslint_deduction_nonneg)
qed (simp_all add: run_pylint_json run_bandit_json run_eslint_json
      run_pylint_score run_bandit_score run_eslint_score)

theorem tool_score_by_deductions_witness:
  "sa_issues (run_pylint (sample_static_env [sample_pylint_item ''warning''] [] []) ''x = 1'')
     = [pylint_issue (sample_pylint_item ''warning'')]
   \<and> sa_score (run_pylint (sample_static_env [sample_pylint_item ''warning''] [] []) ''x = 1'') = 9"
  using tool_score_by_deductions
    [of "sample_static_env [sample_pylint_item ''warning''] [] []" "''x = 1''" "''[{}]''"
        "[sample_pylint_item ''warning'']" "[]" "[]" "[]" "[]" "[]"]
  by (simp add: sample_static_env_def sample_pylint_item_def pylint_deduction_def)

text \<open>
  Claim C4 as stated fails: Pylint's type fatal becomes an issue of severity critical,
  for which the claim takes off 3, and the code takes off 2.
\<close>

theorem tool_score_counterexample:
  "sa_score (run_pylint (sample_static_env [sample_pylint_item ''fatal''] [] []) ''x = 1'')
     \<noteq> spec_tool_score
          (sa_issues (run_pylint (sample_static_env [sample_pylint_item ''fatal''] [] []) ''x = 1''))"
proof -
  have "run_pylint (sample_static_env [sample_pylint_item ''fatal''] [] []) ''x = 1'' =
     \<lparr>sa_tool = ''pylint'', sa_issues = map pylint_issue [sample_pylint_item ''fatal''],
      sa_score = max 0 (10 - sum_list (map pylint_deduction [sample_pylint_item ''fatal''])),
      sa_summary = ''Pylint found '' @ str_of_nat (length [sample_pylint_item ''fatal'']) @ '' issues''\<rparr>"
    by (rule run_pylint_json [where out = "''[{}]''"]) (simp_all add: sample_static_env_def)
  then show ?thesis
    by (simp add: spec_tool_score_def pylint_issue_def pylint_deduction_def sample_pylint_item_def
        map_pylint_severity_def get_or_def)
qed










section \<open>The recommendations\<close>

lemma focus_recommendation_length:
  "length (focus_recommendation area) =
     (if area \<in> set [''performance'', ''readability'', ''security''] then 1 else 0)"
  by (simp add: focus_recommendation_def)

lemma severity_value_critical: "severity_value sev = ''critical'' \<longleftrightarrow> sev = CRITICAL"
  by (cases sev) simp_all

lemma issue_type_value_security:
  "issue_type_value t = ''security_vulnerability'' \<longleftrightarrow> t = SECURITY_VULNERABILITY"
  by (cases t) simp_all

text \<open>
  Claim C7, as the code has it. The recommendations are the first five entries of a
  list built in this order: the line that counts the critical issues, when there is
  one; the line that counts the security issues, when there is one; one line for each
  requested focus area that is \<^verbatim>\<open>performance\<close>, \<^verbatim>\<open>readability\<close> or \<^verbatim>\<open>security\<close>, in the
  order of the request, and no line for any other area; the line that counts the
  suggestions, when there is one. So the list has at most five entries, the
  truncation keeps the entries of highest priority, and with a critical issue the
  first recommendation is the line about critical issues.
\<close>
theorem recommendations_prioritized:
  "length (generate_recommendations issues suggestions focus_areas) \<le> 5
   \<and> generate_recommendations issues suggestions focus_areas
       = take 5 (all_recommendations issues suggestions focus_areas)
   \<and> all_recommendations issues suggestions focus_areas
       = (if filter (\<lambda>i. issue_severity i = CRITICAL) issues \<noteq> []
          then [''Address '' @ str_of_nat (length (filter (\<lambda>i. issue_severity i = CRITICAL) issues))
                @ '' critical issues immediately'']
          else [])
         @ (if filter (\<lambda>i. issue_kind i = SECURITY_VULNERABILITY) issues \<noteq> []
            then [''Review and fix ''
                  @ str_of_nat (length (filter (\<lambda>i. issue_kind i = SECURITY_VULNERABILITY) issues))
                  @ '' security vulnerabilities'']
            else [])
         @ concat (map focus_recommendation (case focus_areas of None \<Rightarrow> [] | Some areas \<Rightarrow> areas))
         @ (if suggestions \<noteq> []
            then [''Implement '' @ str_of_nat (length suggestions) @ '' improvement suggestions'']
            else [])
   \<and> focus_recommendation area
       = (if area = ''performance'' then [''Consider performance optimizations'']
          else if area = ''readability'' then [''Improve code readability and documentation'']
          else if area = ''security'' then [''Conduct thorough security review'']
          else [])
   \<and> (filter (\<lambda>i. issue_severity i = CRITICAL) issues \<noteq> [] \<longrightarrow>
        hd (generate_recommendations issues suggestions focus_areas)
        = ''Address '' @ str_of_nat (length (filter (\<lambda>i. issue_severity i = CRITICAL) issues))
          @ '' critical issues immediately'')"
proof (intro conjI impI)
  show "length (generate_recommendations issues suggestions focus_areas) \<le> 5"
    by (simp add: generate_recommendations_def)
  show "generate_recommendations issues suggestions focus_areas
       = take 5 (all_recommendations issues suggestions focus_areas)"
    by (simp add: generate_recommendations_def)
  show all: "all_recommendations issues suggestions focus_areas
       = (if filter (\<lambda>i. issue_severity i = CRITICAL) issues \<noteq> []
          then [''Address '' @ str_of_nat (length (filter (\<lambda>i. issue_severity i = CRITICAL) issues))
                @ '' critical issues immediately'']
          else [])
         @ (if filter (\<lambda>i. issue_kind i = SECURITY_VULNERABILITY) issues \<noteq> []
            then [''Review and fix ''
                  @ str_of_nat (length (filter (\<lambda>i. issue_kind i = SECURITY_VULNERABILITY) issues))
                  @ '' security vulnerabilities'']
            else [])
         @ concat (map focus_recommendation (case focus_areas of None \<Rightarrow> [] | Some areas \<Rightarrow> areas))
         @ (if suggestions \<noteq> []
            then [''Implement '' @ str_of_nat (length suggestions) @ '' improvement suggestions'']
            else [])"
    unfolding all_recommendations_def Let_def severity_value_critical issue_type_value_security
    by (cases focus_areas) simp_all
  show "focus_recommendation area
       = (if area = ''performance'' then [''Consider performance optimizations'']
          else if area = ''readability'' then [''Improve code readability and documentation'']
          else if area = ''security'' then [''Conduct thorough security review'']
          else [])"
    by (simp add: focus_recommendation_def)
  assume "filter (\<lambda>i. issue_severity i = CRITICAL) issues \<noteq> []"
  then show "hd (generate_recommendations issues suggestions focus_areas)
        = ''Address '' @ str_of_nat (length (filter (\<lambda>i. issue_severity i = CRITICAL) issues))
          @ '' critical issues immediately''"
    unfolding generate_recommendations_def all by simp
qed

theorem recommendations_prioritized_witness:
  "generate_recommendations
     [sample_issue SECURITY_VULNERABILITY CRITICAL, sample_issue STYLE_VIOLATION LOW] []
     (Some [''performance'', ''style'', ''security'', ''readability'', ''performance'', ''security''])
   = [''Address 1 critical issues immediately'',
      ''Review and fix 1 security vulnerabilities'',
      ''Consider performance optimizations'',
      ''Conduct thorough security review'',
      ''Improve code readability and documentation'']"
  using recommendations_prioritized
    [of "[sample_issue SECURITY_VULNERABILITY CRITICAL, sample_issue STYLE_VIOLATION LOW]" "[]"
        "Some [''performance'', ''style'', ''security'', ''readability'', ''performance'', ''security'']"
        "''style''"]
  by (simp add: sample_issue_def str_of_nat.simps digit_char_def focus_recommendation_def)

text \<open>
  Claim C7 as stated fails: the focus area \<^verbatim>\<open>style\<close> is in the recognized set and gets
  no line.
\<close>

theorem recommendations_counterexample:
  "length (generate_recommendations [] [] (Some [''style'']))
     \<noteq> length (filter (\<lambda>area. area \<in> set valid_areas) [''style''])"
  by (simp add: generate_recommendations_def all_recommendations_def focus_recommendation_def
      valid_areas_def)

section \<open>The review pipeline\<close>

lemma round_half_even_bounds:
  assumes "0 \<le> y" "y \<le> of_int n"
  shows "0 \<le> round_half_even y \<and> round_half_even y \<le> n"
proof -
  let ?f = "\<lfloor>y\<rfloor>"
  have f0: "0 \<le> ?f" using assms(1) by simp
  have fn: "?f \<le> n" using assms(2) by (simp add: floor_le_iff)
  have up: "?f + 1 \<le> n" if "1 / 2 \<le> y - of_int ?f"
  proof -
    have "of_int ?f < y" using that by linarith
    then have "of_int ?f < (of_int n :: rat)" using assms(2) by linarith
    then have "?f < n" by simp
    then show ?thesis by simp
  qed
  have "round_half_even y = ?f \<or> (round_half_even y = ?f + 1 \<and> 1 / 2 \<le> y - of_int ?f)"
    by (auto simp: round_half_even_def Let_def)
  then show ?thesis using f0 fn up by auto
qed

lemma round2_in_range: "score_in_range x \<Longrightarrow> score_in_range (round2 x)"
proof -
  assume "score_in_range x"
  then have "0 \<le> x * 100" "x * 100 \<le> of_int 1000"
    by (simp_all add: score_in_range_def)
  then have "0 \<le> round_half_even (x * 100) \<and> round_half_even (x * 100) \<le> 1000"
    by (rule round_half_even_bounds)
  then have "(0::rat) \<le> of_int (round_half_even (x * 100))"
    and "(of_int (round_half_even (x * 100)) :: rat) \<le> 1000"
    by simp_all
  then show ?thesis
    by (simp add: score_in_range_def round2_def)
qed

lemma sum_list_in_range:
  "\<forall>s \<in> set S. score_in_range s \<Longrightarrow> 0 \<le> sum_list S \<and> sum_list S \<le> 10 * of_nat (length S)"
  by (induction S) (auto simp: score_in_range_def algebra_simps)

lemma mean_in_range:
  assumes "\<forall>s \<in> set S. score_in_range s" "S \<noteq> []"
  shows "score_in_range (sum_list S / of_nat (length S))"
proof -
  have len: "(0::rat) < of_nat (length S)" using assms(2) by simp
  from sum_list_in_range [OF assms(1)]
  have "0 \<le> sum_list S" "sum_list S \<le> 10 * of_nat (length S)" by simp_all
  then show ?thesis using len
    by (simp add: score_in_range_def pos_divide_le_eq)
qed

lemma calculate_overall_score_in_range:
  assumes "\<forall>s \<in> set S. score_in_range s" "score_in_range a"
  shows "score_in_range (calculate_overall_score S a)"
proof -
  define avg where "avg = (if S \<noteq> [] then sum_list S / of_nat (length S) else 5)"
  have "score_in_range avg"
    using mean_in_range [OF assms(1)] by (simp add: avg_def score_in_range_def)
  then have "score_in_range (avg * (6 / 10) + a * (4 / 10))"
    using assms(2) by (simp add: score_in_range_def)
  then have "score_in_range (round2 (avg * (6 / 10) + a * (4 / 10)))"
    by (rule round2_in_range)
  then show ?thesis
    by (simp add: calculate_overall_score_def Let_def avg_def score_in_range_def)
qed

lemma static_analyze_code_scores:
  "static_analyze_code env code language = Inr results \<Longrightarrow>
   \<forall>r \<in> set results. score_in_range (sa_score r)"
  by (auto simp: static_analyze_code_def run_pylint_score run_bandit_score run_eslint_score
      split: option.splits if_splits)

lemma review_static_results_scores:
  "\<forall>r \<in> set (review_static_results env request code). score_in_range (sa_score r)"
proof (cases "req_include_static_analysis request")
  case False
  then show ?thesis by (simp add: review_static_results_def)
next
  case True
  show ?thesis
  proof (cases "static_analyze_code (rv_static env) code (req_language request)")
    case (Inl e)
    with True show ?thesis by (simp add: review_static_results_def)
  next
    case (Inr results)
    from static_analyze_code_scores [OF Inr] Inr True show ?thesis
      by (simp add: review_static_results_def)
  qed
qed

lemma convert_ai_analysis_score:
  "convert_ai_analysis v = Inr r \<Longrightarrow> score_in_range (air_score r)"
  by (auto simp: convert_ai_analysis_def Let_def split: ai_value.splits sum.splits if_splits)

lemma convert_ai_analysis_out_of_range:
  "\<not> score_in_range (get_or (d_score d) 5) \<Longrightarrow> isl (convert_ai_analysis (AiDict d))"
  by (auto simp: convert_ai_analysis_def Let_def split: sum.splits)

lemma review_ai_result_score:
  "review_ai_result env request code = Some r \<Longrightarrow> score_in_range (air_score r)"
  by (auto simp: review_ai_result_def dest: convert_ai_analysis_score split: sum.splits if_splits)

lemma review_overall_score_in_range:
  "score_in_range (review_overall_score (review_static_results env request code)
                     (review_ai_result env request code))"
proof -
  have a: "score_in_range (case review_ai_result env request code of
                             Some r \<Rightarrow> air_score r | None \<Rightarrow> 5)"
    by (auto simp: score_in_range_def dest: review_ai_result_score split: option.splits)
  have s: "\<forall>s \<in> set (map sa_score (review_static_results env request code)). score_in_range s"
    using review_static_results_scores by simp
  show ?thesis
    unfolding review_overall_score_def Let_def
    by (rule calculate_overall_score_in_range [OF s a])
qed

lemma review_code_invalid:
  "validate_review_request env request = Inl e \<Longrightarrow> review_code env history request = (history, Inl e)"
  by (simp add: review_code_def)

lemma review_code_valid:
  assumes "validate_review_request env request = Inr ()"
  shows "\<exists>response. snd (review_code env history request) = Inr response
     \<and> resp_overall_score response
         = review_overall_score (review_static_results env request (sanitize_code (req_code request)))
             (review_ai_result env request (sanitize_code (req_code request)))
     \<and> resp_ai_analysis response = review_ai_result env request (sanitize_code (req_code request))"
  using assms review_overall_score_in_range [of env request "sanitize_code (req_code request)"]
  by (simp add: review_code_def Let_def CodeReviewResponse_def)

lemma review_code_result_history:
  "snd (review_code env history request) = snd (review_code env [] request)"
  by (simp add: review_code_def Let_def split: sum.splits)

lemma validate_review_request_cases:
  "validate_review_request env request = Inr ()
   \<longleftrightarrow> strip (req_code request) \<noteq> []
       \<and> length (req_code request) \<le> rv_max_file_size_mb env * 1024 * 1024"
  by (auto simp: validate_review_request_def)

lemma validate_review_request_isl:
  "isl (validate_review_request env request) \<longleftrightarrow> validate_review_request env request \<noteq> Inr ()"
  by (cases "validate_review_request env request") auto

lemma review_code_succeeds_iff:
  "\<not> isl (snd (review_code env history request)) \<longleftrightarrow> validate_review_request env request = Inr ()"
proof (cases "validate_review_request env request")
  case (Inl e)
  then show ?thesis by (simp add: review_code_invalid)
next
  case (Inr u)
  then have v: "validate_review_request env request = Inr ()" by simp
  from review_code_valid [OF v, of history] show ?thesis using v by auto
qed

text \<open>
  Claim C8, as the code has it. The aggregation does not clamp. A score outside
  \<open>[0, 10]\<close> is refused where a result is built: the constructor of a static result
  raises on it, and an AI analysis with such a score fails its conversion, is dropped
  whole, and the review goes on as without an AI result, with the neutral 5.0 in its
  place. Constituents inside \<open>[0, 10]\<close> give an overall score inside \<open>[0, 10]\<close>, so every
  request that passes validation gets a response, with an overall score in that range.
\<close>
theorem scores_validated_not_clamped:
  "(validate_review_request env request = Inr () \<longrightarrow>
      (\<exists>response. snd (review_code env history request) = Inr response
         \<and> score_in_range (resp_overall_score response)))
   \<and> (\<not> score_in_range (get_or (d_score d) 5) \<longrightarrow> isl (convert_ai_analysis (AiDict d)))
   \<and> (analyze_code (rv_engine env) code (language_value (req_language request))
         (req_context request) = Inr (AiDict d)
       \<and> \<not> score_in_range (get_or (d_score d) 5) \<longrightarrow>
       review_ai_result env request code = None
       \<and> review_overall_score static_results (review_ai_result env request code)
           = calculate_overall_score (map sa_score static_results) 5)
   \<and> (StaticAnalysisResult t issues s summary = Inr r \<longrightarrow> score_in_range s)
   \<and> ((\<forall>s \<in> set S. score_in_range s) \<and> score_in_range a \<longrightarrow>
        score_in_range (calculate_overall_score S a))"
proof (intro conjI impI)
  assume v: "validate_review_request env request = Inr ()"
  from review_code_valid [OF v, of history]
  obtain response where r: "snd (review_code env history request) = Inr response"
    and s: "resp_overall_score response
         = review_overall_score (review_static_results env request (sanitize_code (req_code request)))
             (review_ai_result env request (sanitize_code (req_code request)))"
    by blast
  from s have "score_in_range (resp_overall_score response)"
    by (simp add: review_overall_score_in_range)
  with r show "\<exists>response. snd (review_code env history request) = Inr response
         \<and> score_in_range (resp_overall_score response)"
    by blast
next
  assume "\<not> score_in_range (get_or (d_score d) 5)"
  then show "isl (convert_ai_analysis (AiDict d))"
    by (rule convert_ai_analysis_out_of_range)
next
  assume a: "analyze_code (rv_engine env) code (language_value (req_language request))
         (req_context request) = Inr (AiDict d)
       \<and> \<not> score_in_range (get_or (d_score d) 5)"
  then have "isl (convert_ai_analysis (AiDict d))"
    by (simp add: convert_ai_analysis_out_of_range)
  then obtain e where "convert_ai_analysis (AiDict d) = Inl e"
    by (cases "convert_ai_analysis (AiDict d)") auto
  with a show n: "review_ai_result env request code = None"
    by (simp add: review_ai_result_def)
  show "review_overall_score static_results (review_ai_result env request code)
           = calculate_overall_score (map sa_score static_results) 5"
    by (simp add: n review_overall_score_def)
next
  assume "StaticAnalysisResult t issues s summary = Inr r"
  then show "score_in_range s"
    by (simp add: StaticAnalysisResult_def split: if_splits)
next
  assume "(\<forall>s \<in> set S. score_in_range s) \<and> score_in_range a"
  then show "score_in_range (calculate_overall_score S a)"
    by (simp add: calculate_overall_score_in_range)
qed

lemma strip_sample_code: "strip ''x = 1'' = ''x = 1''"
  by (simp add: strip_def is_space_def)

lemma sample_request_valid:
  "validate_review_request (sample_review_env eng) (sample_request ''x = 1'' b) = Inr ()"
  by (simp add: validate_review_request_def sample_request_def sample_review_env_def
      strip_sample_code)

lemma analyze_code_score15:
  "analyze_code (sample_engine (Some (\<lambda>code language ctx. Inr score15_text)) None None)
      code language ctx = Inr (AiDict (sample_dict 15))"
  by (simp add: analyze_code_def analyze_code_try_def analyze_with_openai_def sample_engine_def)

theorem scores_validated_not_clamped_witness:
  "(\<exists>response.
      snd (review_code
             (sample_review_env (sample_engine (Some (\<lambda>code language ctx. Inr score15_text)) None None))
             [] (sample_request ''x = 1'' True)) = Inr response
      \<and> score_in_range (resp_overall_score response))
   \<and> review_ai_result
        (sample_review_env (sample_engine (Some (\<lambda>code language ctx. Inr score15_text)) None None))
        (sample_request ''x = 1'' True) ''x = 1'' = None
   \<and> score_in_range (calculate_overall_score [10, 0] 5)"
  using scores_validated_not_clamped
    [of "sample_review_env (sample_engine (Some (\<lambda>code language ctx. Inr score15_text)) None None)"
        "sample_request ''x = 1'' True" "[]" "sample_dict 15" "''x = 1''" "[]"
        "''pylint''" "[]" 5 "[]" "sample_static_result 5" "[10, 0]" 5]
    sample_request_valid [of _ True]
  by (simp add: analyze_code_score15 sample_review_env_def sample_dict_def get_or_def
      score_in_range_def StaticAnalysisResult_def sample_static_result_def)

text \<open>
  Claim C8 as stated fails: for a provider that answers the score 15 (and no static
  analysis), clamping would give 0.6 * 5 + 0.4 * 10 = 7.0; the review drops the AI
  analysis and has the overall score 5.0.
\<close>

theorem scores_clamped_counterexample:
  "(case snd (review_code
               (sample_review_env
                  (sample_engine (Some (\<lambda>code language ctx. Inr score15_text)) None None))
               [] (sample_request ''x = 1'' False)) of
      Inr response \<Rightarrow> resp_overall_score response \<noteq> spec_clamped_overall_score [] (Some 15)
                       \<and> resp_ai_analysis response = None
    | Inl e \<Rightarrow> False)"
proof -
  let ?env = "sample_review_env
                (sample_engine (Some (\<lambda>code language ctx. Inr score15_text)) None None)"
  let ?req = "sample_request ''x = 1'' False"
  let ?code = "sanitize_code (req_code ?req)"
  have ai: "review_ai_result ?env ?req ?code = None"
    by (simp add: review_ai_result_def sample_review_env_def sample_request_def
        analyze_code_score15 convert_ai_analysis_def sample_dict_def get_or_def score_in_range_def)
  have st: "review_static_results ?env ?req ?code = []"
    by (simp add: review_static_results_def sample_request_def)
  have v: "validate_review_request ?env ?req = Inr ()"
    by (rule sample_request_valid)
  from review_code_valid [OF v, where history = "[]"]
  obtain response where r: "snd (review_code ?env [] ?req) = Inr response"
    and s: "resp_overall_score response
            = review_overall_score (review_static_results ?env ?req ?code)
                (review_ai_result ?env ?req ?code)"
    and a: "resp_ai_analysis response = review_ai_result ?env ?req ?code"
    by blast
  have "resp_overall_score response = 5"
    unfolding s ai st
    by (simp add: review_overall_score_def calculate_overall_score_def round2_def
        round_half_even_def)
  moreover have "spec_clamped_overall_score [] (Some 15) = 7"
    by (simp add: spec_clamped_overall_score_def spec_overall_score_def spec_clamp_def round2_def
        round_half_even_def)
  ultimately show ?thesis using r a ai by simp
qed

lemma review_file_result_history:
  "snd (review_file env request history fd) = snd (review_file env request [] fd)"
  by (simp add: review_file_def review_code_result_history [of env history]
      split: sum.splits)

lemma parse_language_isl: "isl (parse_language l) \<or> (\<exists>lang. parse_language l = Inr lang)"
  by (cases "parse_language l") auto

lemma individual_request_ok:
  "individual_request request fd = Inr individual \<Longrightarrow>
   file_code fd = Some (req_code individual) \<and> req_code individual \<noteq> []
   \<and> (\<exists>l. file_language fd = Some l \<and> parse_language l = Inr (req_language individual))"
  by (auto simp: individual_request_def CodeReviewRequest_def
      split: option.splits sum.splits if_splits)

lemma strip_Nil: "strip [] = []"
  by (simp add: strip_def)

lemma review_file_succeeds_iff:
  "\<not> isl (snd (review_file env request history fd)) \<longleftrightarrow> file_valid env fd"
proof (cases "individual_request request fd")
  case (Inl e)
  then have "\<not> file_valid env fd"
    by (auto simp: individual_request_def CodeReviewRequest_def file_valid_def strip_Nil
        split: option.splits sum.splits if_splits)
  with Inl show ?thesis by (simp add: review_file_def)
next
  case (Inr individual)
  from individual_request_ok [OF Inr]
  have "file_valid env fd \<longleftrightarrow> validate_review_request env individual = Inr ()"
    by (auto simp: file_valid_def validate_review_request_cases)
  with Inr show ?thesis
    by (simp add: review_file_def review_code_succeeds_iff)
qed

lemma file_reviews_length:
  "length (file_reviews env request fd) = (if file_valid env fd then 1 else 0)"
  using review_file_succeeds_iff [of env request "[]" fd]
  by (cases "snd (review_file env request [] fd)") (simp_all add: file_reviews_def)

lemma batch_loop_result:
  "\<exists>history'. batch_loop env request (history, reviews, successful, failed) files =
     (history', reviews @ concat (map (file_reviews env request) files),
      successful + length (filter (file_valid env) files),
      failed + length (filter (\<lambda>f. \<not> file_valid env f) files))"
proof (induction files arbitrary: history reviews successful failed)
  case Nil
  show ?case by simp
next
  case (Cons fd files)
  obtain history1 result where rf: "review_file env request history fd = (history1, result)"
    by (cases "review_file env request history fd")
  have res: "snd (review_file env request [] fd) = result"
    using review_file_result_history [of env request history fd] rf by simp
  show ?case
  proof (cases result)
    case (Inl e)
    have nv: "\<not> file_valid env fd"
      using review_file_succeeds_iff [of env request history fd] rf Inl by simp
    have fr: "file_reviews env request fd = []"
      using res Inl by (simp add: file_reviews_def)
    from Cons.IH [of history1 reviews successful "failed + 1"]
    show ?thesis using rf Inl nv fr by simp
  next
    case (Inr r)
    have v: "file_valid env fd"
      using review_file_succeeds_iff [of env request history fd] rf Inr by simp
    have fr: "file_reviews env request fd = [r]"
      using res Inr by (simp add: file_reviews_def)
    from Cons.IH [of history1 "reviews @ [r]" "successful + 1" failed]
    show ?thesis using rf Inr v fr by simp
  qed
qed

lemma batch_review_result:
  "batch_reviews (snd (batch_review env history request))
     = concat (map (file_reviews env request) (batch_files request))
   \<and> batch_successful_reviews (snd (batch_review env history request))
     = length (filter (file_valid env) (batch_files request))
   \<and> batch_failed_reviews (snd (batch_review env history request))
     = length (filter (\<lambda>f. \<not> file_valid env f) (batch_files request))"
proof -
  from batch_loop_result [of env request history "[]" 0 0 "batch_files request"]
  obtain history' where
    "batch_loop env request (history, [], 0, 0) (batch_files request) =
     (history', concat (map (file_reviews env request) (batch_files request)),
      length (filter (file_valid env) (batch_files request)),
      length (filter (\<lambda>f. \<not> file_valid env f) (batch_files request)))"
    by auto
  then show ?thesis by (simp add: batch_review_def)
qed

lemma length_concat_file_reviews:
  "length (concat (map (file_reviews env request) files)) = length (filter (file_valid env) files)"
  by (induction files) (simp_all add: file_reviews_length)

lemma empty_code_invalid: "file_code fd = Some [] \<Longrightarrow> \<not> file_valid env fd"
  by (simp add: file_valid_def strip_Nil split: option.splits)

lemma filter_split_length:
  "length (filter P xs) + length (filter (\<lambda>x. \<not> P x) xs) = length xs"
  by (induction xs) simp_all

text \<open>
  Claim C9. In a batch each file is reviewed on its own: the reviews of the response
  are, in order, the reviews that each file gets when reviewed alone, the files that
  fail contributing none; the number of reviews and \<^verbatim>\<open>successful_reviews\<close> count the
  files that can be reviewed and \<^verbatim>\<open>failed_reviews\<close> counts exactly the others. For
  three files of which exactly one has an empty code, the others being reviewable, the
  response holds 2 reviews and \<^verbatim>\<open>failed_reviews\<close> is 1.
\<close>
theorem batch_failures_isolated:
  "batch_reviews (snd (batch_review env history request))
     = concat (map (file_reviews env request) (batch_files request))
   \<and> length (batch_reviews (snd (batch_review env history request)))
     = length (filter (file_valid env) (batch_files request))
   \<and> batch_successful_reviews (snd (batch_review env history request))
     = length (filter (file_valid env) (batch_files request))
   \<and> batch_failed_reviews (snd (batch_review env history request))
     = length (filter (\<lambda>f. \<not> file_valid env f) (batch_files request))
   \<and> (length (batch_files request) = 3
       \<and> length (filter (\<lambda>f. file_code f = Some []) (batch_files request)) = 1
       \<and> (\<forall>f \<in> set (batch_files request). file_code f \<noteq> Some [] \<longrightarrow> file_valid env f)
       \<longrightarrow> length (batch_reviews (snd (batch_review env history request))) = 2
         \<and> batch_failed_reviews (snd (batch_review env history request)) = 1)"
proof (intro conjI impI)
  note res = batch_review_result [of env history request]
  show "batch_reviews (snd (batch_review env history request))
     = concat (map (file_reviews env request) (batch_files request))"
    using res by simp
  show len: "length (batch_reviews (snd (batch_review env history request)))
     = length (filter (file_valid env) (batch_files request))"
    using res by (simp add: length_concat_file_reviews)
  show "batch_successful_reviews (snd (batch_review env history request))
     = length (filter (file_valid env) (batch_files request))"
    using res by simp
  show failed: "batch_failed_reviews (snd (batch_review env history request))
     = length (filter (\<lambda>f. \<not> file_valid env f) (batch_files request))"
    using res by simp
  assume h: "length (batch_files request) = 3
       \<and> length (filter (\<lambda>f. file_code f = Some []) (batch_files request)) = 1
       \<and> (\<forall>f \<in> set (batch_files request). file_code f \<noteq> Some [] \<longrightarrow> file_valid env f)"
  have "\<forall>f \<in> set (batch_files request). (\<not> file_valid env f) = (file_code f = Some [])"
    using h empty_code_invalid by blast
  then have "filter (\<lambda>f. \<not> file_valid env f) (batch_files request)
             = filter (\<lambda>f. file_code f = Some []) (batch_files request)"
    by (intro filter_cong) simp_all
  then have f1: "length (filter (\<lambda>f. \<not> file_valid env f) (batch_files request)) = 1"
    using h by simp
  with failed show "batch_failed_reviews (snd (batch_review env history request)) = 1"
    by simp
  from f1 h filter_split_length [of "file_valid env" "batch_files request"]
  have "length (filter (file_valid env) (batch_files request)) = 2"
    by simp
  with len show "length (batch_reviews (snd (batch_review env history request))) = 2"
    by simp
qed

lemma parse_language_python: "parse_language ''python'' = Inr PYTHON"
  by (simp add: parse_language_def)

lemma sample_file_valid:
  "file_valid (sample_review_env eng) (sample_file ''x = 1'')"
  by (simp add: file_valid_def sample_file_def sample_review_env_def parse_language_python
      strip_sample_code)

theorem batch_failures_isolated_witness:
  "length (batch_reviews
     (snd (batch_review (sample_review_env (sample_engine None None None)) [] sample_batch))) = 2
   \<and> batch_failed_reviews
     (snd (batch_review (sample_review_env (sample_engine None None None)) [] sample_batch)) = 1"
proof -
  let ?env = "sample_review_env (sample_engine None None None)"
  have e: "file_code (sample_file []) = Some []" "file_code (sample_file ''x = 1'') \<noteq> Some []"
    by (simp_all add: sample_file_def)
  have hyp: "length (batch_files sample_batch) = 3
       \<and> length (filter (\<lambda>f. file_code f = Some []) (batch_files sample_batch)) = 1
       \<and> (\<forall>f \<in> set (batch_files sample_batch). file_code f \<noteq> Some [] \<longrightarrow> file_valid ?env f)"
    by (simp add: sample_batch_def e sample_file_valid)
  from batch_failures_isolated [of ?env "[]" sample_batch] hyp show ?thesis
    by blast
qed

section \<open>The provider chain and the text parser\<close>

lemma analyze_code_first_attempt:
  "analyze_code eng code language ctx =
     (case provider_attempts eng code language ctx of
        [] \<Rightarrow> Inr (AiDict (get_fallback_suggestions code language))
      | r # rest \<Rightarrow>
          (case r of
             Inr v \<Rightarrow> Inr v
           | Inl e \<Rightarrow> Inr (AiDict (get_fallback_suggestions code language))))"
  by (simp add: analyze_code_def analyze_code_try_def provider_attempts_def
      split: option.splits sum.splits)

lemma analyze_code_returns: "\<exists>v. analyze_code eng code language ctx = Inr v"
  by (simp add: analyze_code_def split: sum.splits)

lemma analyze_code_all_fail:
  assumes "\<forall>r \<in> set (provider_attempts eng code language ctx). isl r"
  shows "analyze_code eng code language ctx = Inr (AiDict (get_fallback_suggestions code language))"
proof (cases "provider_attempts eng code language ctx")
  case Nil
  then show ?thesis by (simp add: analyze_code_first_attempt)
next
  case (Cons r rest)
  with assms have "isl r" by simp
  then obtain e where "r = Inl e" by (cases r) auto
  with Cons show ?thesis by (simp add: analyze_code_first_attempt)
qed

lemma fallback_score:
  "d_score (get_fallback_suggestions code language) = Some 6
   \<or> d_score (get_fallback_suggestions code language) = Some 8"
  by (simp add: get_fallback_suggestions_def Let_def)

lemma parse_issue_type_performance: "parse_issue_type ''performance_issue'' = Inr PERFORMANCE_ISSUE"
  by (simp add: parse_issue_type_def)

lemma parse_severity_high: "parse_severity ''high'' = Inr HIGH"
  by (simp add: parse_severity_def)

lemma parse_severity_medium: "parse_severity ''medium'' = Inr MEDIUM"
  by (simp add: parse_severity_def)

lemma convert_fibonacci_issue:
  "convert_ai_issue fibonacci_issue =
     Inr \<lparr>issue_kind = PERFORMANCE_ISSUE, issue_severity = HIGH, issue_line = Some 3,
          issue_column = None,
          issue_message = ''Recursive Fibonacci has exponential time complexity O(2^n)'',
          issue_suggestion = Some ''Use iterative approach or memoization for better performance'',
          issue_rule_id = None, issue_tool = Some ''ai_engine''\<rparr>"
  by (simp add: convert_ai_issue_def fibonacci_issue_def get_or_def parse_issue_type_performance
      parse_severity_high)

lemma convert_suggestion_default_confidence:
  "rs_confidence s = None \<Longrightarrow> \<not> isl (convert_ai_suggestion s)"
  by (simp add: convert_ai_suggestion_def get_or_def Let_def)

lemma convert_medium_concern:
  "rc_severity c = Some ''medium'' \<Longrightarrow> \<not> isl (convert_security_concern c)"
  by (simp add: convert_security_concern_def get_or_def parse_severity_medium)

lemma convert_all_ok:
  "(\<forall>x \<in> set xs. \<not> isl (f x)) \<Longrightarrow> \<exists>ys. convert_all f xs = Inr ys"
proof (induction xs)
  case Nil
  show ?case by simp
next
  case (Cons x xs)
  then obtain ys where ys: "convert_all f xs = Inr ys" by auto
  from Cons.prems obtain y where "f x = Inr y" by (cases "f x") auto
  with ys show ?case by simp
qed

lemma fallback_converts:
  "\<not> isl (convert_ai_analysis (AiDict (get_fallback_suggestions code language)))"
proof -
  let ?d = "get_fallback_suggestions code language"
  have "\<forall>x \<in> set (d_issues ?d). \<not> isl (convert_ai_issue x)"
    by (simp add: get_fallback_suggestions_def Let_def convert_fibonacci_issue)
  then obtain iss where i: "convert_all convert_ai_issue (d_issues ?d) = Inr iss"
    using convert_all_ok by blast
  have "\<forall>x \<in> set (d_suggestions ?d). \<not> isl (convert_ai_suggestion x)"
    by (auto simp: get_fallback_suggestions_def Let_def iterative_suggestion_def
        memoization_suggestion_def input_validation_suggestion_def
        intro!: convert_suggestion_default_confidence)
  then obtain ss where s: "convert_all convert_ai_suggestion (d_suggestions ?d) = Inr ss"
    using convert_all_ok by blast
  have "\<forall>x \<in> set (d_security_concerns ?d). \<not> isl (convert_security_concern x)"
    by (auto simp: get_fallback_suggestions_def Let_def fallback_input_concern_def
        intro!: convert_medium_concern)
  then obtain cs where c: "convert_all convert_security_concern (d_security_concerns ?d) = Inr cs"
    using convert_all_ok by blast
  have "\<forall>x \<in> set (d_performance_notes ?d). \<not> isl (convert_performance_note x)"
    by (simp add: convert_performance_note_def)
  then obtain ns where n: "convert_all convert_performance_note (d_performance_notes ?d) = Inr ns"
    using convert_all_ok by blast
  have sc: "score_in_range (get_or (d_score ?d) 5)"
    using fallback_score [of code language] by (auto simp: get_or_def score_in_range_def)
  have rm: "d_readability_score ?d = Some 7" "d_maintainability_score ?d = Some 6"
    by (simp_all add: get_fallback_suggestions_def Let_def)
  show ?thesis
    using sc by (simp add: convert_ai_analysis_def i s c n rm get_or_def Let_def score_in_range_def)
qed

text \<open>
  Claim C3. \<^verbatim>\<open>analyze_code\<close> returns a result for every engine, code and language.
  When no provider is configured, or every configured provider fails, the result is
  the fallback analysis, computed from the code text alone. The fallback analysis has
  the score 6 or 8 and passes the validation of \<^verbatim>\<open>_convert_ai_analysis\<close>, so the review
  gets an AI result from it. (The analysis has no status field: being a valid result
  is what stands for a status that is not failed.)
\<close>
theorem fallback_never_fails:
  "(\<exists>v. analyze_code eng code language ctx = Inr v)
   \<and> ((\<forall>r \<in> set (provider_attempts eng code language ctx). isl r) \<longrightarrow>
        analyze_code eng code language ctx
        = Inr (AiDict (get_fallback_suggestions code language)))
   \<and> (d_score (get_fallback_suggestions code language) = Some 6
        \<or> d_score (get_fallback_suggestions code language) = Some 8)
   \<and> \<not> isl (convert_ai_analysis (AiDict (get_fallback_suggestions code language)))"
  using analyze_code_returns analyze_code_all_fail fallback_score fallback_converts
  by blast

theorem fallback_never_fails_witness:
  "analyze_code (sample_engine None None None) ''x = 1'' ''python'' None
     = Inr (AiDict (get_fallback_suggestions ''x = 1'' ''python''))
   \<and> analyze_code
       (sample_engine (Some (\<lambda>code language ctx. Inl (TimeoutExpired ''timed out'')))
                      None (Some (\<lambda>code language ctx. Inl (OtherError ''overloaded''))))
       ''x = 1'' ''python'' None
     = Inr (AiDict (get_fallback_suggestions ''x = 1'' ''python''))"
  using fallback_never_fails [of "sample_engine None None None" "''x = 1''" "''python''" None]
    fallback_never_fails
      [of "sample_engine (Some (\<lambda>code language ctx. Inl (TimeoutExpired ''timed out'')))
                      None (Some (\<lambda>code language ctx. Inl (OtherError ''overloaded'')))"
          "''x = 1''" "''python''" None]
  by (simp add: provider_attempts_def sample_engine_def analyze_with_openai_def
      analyze_with_anthropic_def)

lemma brace_fragment_none: "CHR ''{'' \<notin> set content \<Longrightarrow> brace_fragment content = None"
proof -
  assume "CHR ''{'' \<notin> set content"
  then have h: "dropWhile (\<lambda>c. c \<noteq> CHR ''{'') content = []"
    by (auto simp: dropWhile_eq_Nil_conv)
  show ?thesis unfolding brace_fragment_def h by simp
qed

lemma parse_text_response_plain:
  "CHR ''{'' \<notin> set content \<Longrightarrow>
   parse_text_response eng content = Inr (AiDict (text_response content))"
  by (simp add: parse_text_response_def brace_fragment_none)







lemma lower_char_newline: "lower_char c = CHR 0x0A \<longleftrightarrow> c = CHR 0x0A"
  by (simp add: lower_char_def)

lemma is_space_lower_char: "is_space (lower_char c) = is_space c"
  by (simp add: lower_char_def is_space_def)

lemma split_lines_not_Nil: "split_lines s \<noteq> []"
  by (induction s) (auto split: list.splits)

lemma split_lines_lower: "split_lines (lower s) = map lower (split_lines s)"
proof (induction s)
  case Nil
  show ?case by (simp add: lower_def)
next
  case (Cons c cs)
  obtain l ls where l: "split_lines cs = l # ls"
    using split_lines_not_Nil [of cs] by (cases "split_lines cs") auto
  with Cons show ?case
    by (simp add: lower_def lower_char_newline)
qed

lemma dropWhile_lower: "dropWhile is_space (lower s) = lower (dropWhile is_space s)"
  by (induction s) (simp_all add: lower_def is_space_lower_char)

lemma strip_lower: "strip (lower s) = lower (strip s)"
proof -
  have r: "rev (lower t) = lower (rev t)" for t
    by (simp add: lower_def rev_map)
  show ?thesis
    by (simp add: strip_def dropWhile_lower r)
qed

lemma prefix_first_line:
  "prefix n s \<Longrightarrow> CHR 0x0A \<notin> set n \<Longrightarrow> prefix n (hd (split_lines s))"
proof (induction s arbitrary: n)
  case Nil
  then show ?case by simp
next
  case (Cons c cs)
  show ?case
  proof (cases n)
    case Nil
    then show ?thesis by simp
  next
    case (Cons x n')
    with Cons.prems have x: "x = c" "c \<noteq> CHR 0x0A" "prefix n' cs" "CHR 0x0A \<notin> set n'"
      by auto
    obtain l ls where l: "split_lines cs = l # ls"
      using split_lines_not_Nil [of cs] by (cases "split_lines cs") auto
    from Cons.IH [OF x(3) x(4)] l have "prefix n' l" by simp
    with x l Cons show ?thesis by simp
  qed
qed

lemma sublist_some_line:
  "sublist n s \<Longrightarrow> CHR 0x0A \<notin> set n \<Longrightarrow> \<exists>l \<in> set (split_lines s). sublist n l"
proof (induction s)
  case Nil
  then show ?case by simp
next
  case (Cons c cs)
  obtain l0 ls where l0: "split_lines cs = l0 # ls"
    using split_lines_not_Nil [of cs] by (cases "split_lines cs") auto
  from Cons.prems(1) have "prefix n (c # cs) \<or> sublist n cs"
    by (simp add: sublist_Cons_right)
  then show ?case
  proof
    assume "prefix n (c # cs)"
    from prefix_first_line [OF this Cons.prems(2)]
    have "sublist n (hd (split_lines (c # cs)))" by (rule prefix_imp_sublist)
    moreover have "hd (split_lines (c # cs)) \<in> set (split_lines (c # cs))"
      using split_lines_not_Nil [of "c # cs"] by (intro hd_in_set)
    ultimately show ?thesis by blast
  next
    assume "sublist n cs"
    from Cons.IH [OF this Cons.prems(2)]
    obtain l where l: "l \<in> set (split_lines cs)" "sublist n l" by blast
    show ?thesis
    proof (cases "c = CHR 0x0A")
      case True
      with l show ?thesis by auto
    next
      case False
      show ?thesis
      proof (cases "l = l0")
        case True
        with l have "sublist n (c # l0)" by (simp add: sublist_Cons_right)
        with False l0 show ?thesis by simp
      next
        case False
        with l l0 have "l \<in> set ls" by simp
        with \<open>c \<noteq> CHR 0x0A\<close> l0 l show ?thesis by auto
      qed
    qed
  qed
qed

lemma sublist_dropWhile_keep:
  assumes "sublist n s" "n \<noteq> []" "\<not> P (hd n)"
  shows "sublist n (dropWhile P s)"
proof -
  from assms(1) obtain ps ss where s: "s = ps @ n @ ss"
    by (auto simp: sublist_def)
  from assms(2,3) have d: "dropWhile P (n @ ss) = n @ ss"
    by (cases n) simp_all
  show ?thesis
  proof (cases "\<forall>x \<in> set ps. P x")
    case True
    then have "dropWhile P s = n @ ss" using d s by simp
    then show ?thesis by simp
  next
    case False
    then have "dropWhile P s = dropWhile P ps @ n @ ss" using s by auto
    then show ?thesis by simp
  qed
qed

lemma sublist_strip_keep:
  assumes "sublist n s" "n \<noteq> []" "\<not> is_space (hd n)" "\<not> is_space (last n)"
  shows "sublist n (strip s)"
proof -
  have "sublist n (dropWhile is_space s)"
    using assms(1,2,3) by (rule sublist_dropWhile_keep)
  then have "sublist (rev n) (rev (dropWhile is_space s))" by simp
  moreover have "rev n \<noteq> []" "\<not> is_space (hd (rev n))"
    using assms(2,4) by (simp_all add: hd_rev)
  ultimately have "sublist (rev n) (dropWhile is_space (rev (dropWhile is_space s)))"
    by (rule sublist_dropWhile_keep)
  then show ?thesis
    by (simp add: strip_def sublist_rev_left)
qed

lemma recursive_line:
  assumes "str_in ''recursive'' (lower content)"
  shows "\<exists>line \<in> set (map strip (split_lines content)).
           line \<noteq> [] \<and> str_in ''recursive'' (lower line)"
proof -
  from assms have "sublist ''recursive'' (lower content)" by (simp add: str_in_def)
  then have "\<exists>l \<in> set (split_lines (lower content)). sublist ''recursive'' l"
    by (rule sublist_some_line) simp
  then obtain l0 where l0: "l0 \<in> set (split_lines content)" "sublist ''recursive'' (lower l0)"
    by (auto simp: split_lines_lower)
  have "sublist ''recursive'' (strip (lower l0))"
    using l0(2) by (rule sublist_strip_keep) (simp_all add: is_space_def)
  then have s: "sublist ''recursive'' (lower (strip l0))" by (simp add: strip_lower)
  then have "strip l0 \<noteq> []" by (auto simp: lower_def)
  with s l0(1) show ?thesis by (auto simp: str_in_def)
qed

lemma text_response_issues:
  "d_issues (text_response content)
     = map (\<lambda>line. fibonacci_issue)
         (filter (performance_hit content)
            (filter (\<lambda>line. line \<noteq> []) (map strip (split_lines content))))"
  by (simp add: text_response_def Let_def)

lemma text_response_score:
  "d_score (text_response content)
     = Some (if str_in ''performance'' (lower content) \<and> str_in ''recursive'' (lower content)
             then 3 else 5)"
  by (simp add: text_response_def Let_def)

lemma text_response_has_issue:
  assumes "str_in ''recursive'' (lower content)" "str_in ''fibonacci'' (lower content)"
  shows "d_issues (text_response content) \<noteq> []"
proof -
  from recursive_line [OF assms(1)]
  obtain line where line: "line \<in> set (map strip (split_lines content))" "line \<noteq> []"
    "str_in ''recursive'' (lower line)"
    by blast
  then have "performance_hit content line"
    using assms(2) by (simp add: performance_hit_def)
  with line have "line \<in> set (filter (performance_hit content)
            (filter (\<lambda>line. line \<noteq> []) (map strip (split_lines content))))"
    by simp
  then have "filter (performance_hit content)
            (filter (\<lambda>line. line \<noteq> []) (map strip (split_lines content))) \<noteq> []"
    by (metis empty_iff list.set(1))
  then show ?thesis by (simp add: text_response_issues)
qed

lemma text_response_no_fibonacci:
  "\<not> str_in ''fibonacci'' (lower content) \<Longrightarrow> d_issues (text_response content) = []"
  by (simp add: text_response_issues performance_hit_def)

lemma sample_text_keywords:
  "str_in ''performance'' (lower ''recursive performance'')"
  "str_in ''recursive'' (lower ''recursive performance'')"
  "\<not> str_in ''fibonacci'' (lower ''recursive performance'')"
  by code_simp+

lemma sample_text_keywords2:
  "str_in ''performance'' (lower ''Recursive Fibonacci: bad performance'')"
  "str_in ''recursive'' (lower ''Recursive Fibonacci: bad performance'')"
  "str_in ''fibonacci'' (lower ''Recursive Fibonacci: bad performance'')"
  by code_simp+

text \<open>
  Claim C6, as the code has it. When the text of a response holds no brace-delimited
  fragment, or the fragment does not decode, \<^verbatim>\<open>_parse_text_response\<close> returns the
  response built from the text, whose score is 5, or 3 exactly when both
  \<^verbatim>\<open>performance\<close> and \<^verbatim>\<open>recursive\<close> occur in the lowercased text. It has an issue, and
  then only issues of the type \<^verbatim>\<open>performance_issue\<close>, when the lowercased text holds
  \<^verbatim>\<open>recursive\<close> and also \<^verbatim>\<open>fibonacci\<close>; without \<^verbatim>\<open>fibonacci\<close> in the text it has no
  issue. The code under review is no input of the text parser.
\<close>
theorem text_extractor_score:
  "((brace_fragment content = None
      \<or> (\<exists>json_str m. brace_fragment content = Some json_str
            \<and> json_loads eng json_str = Inl (JSONDecodeError m)))
     \<longrightarrow> parse_text_response eng content = Inr (AiDict (text_response content)))
   \<and> d_score (text_response content)
       = Some (if str_in ''performance'' (lower content) \<and> str_in ''recursive'' (lower content)
               then 3 else 5)
   \<and> (str_in ''recursive'' (lower content) \<and> str_in ''fibonacci'' (lower content)
       \<longrightarrow> d_issues (text_response content) \<noteq> []
         \<and> (\<forall>i \<in> set (d_issues (text_response content)).
               ri_type i = Some ''performance_issue''))
   \<and> (\<not> str_in ''fibonacci'' (lower content) \<longrightarrow> d_issues (text_response content) = [])
   \<and> parse_issue_type ''performance_issue'' = Inr PERFORMANCE_ISSUE"
proof (intro conjI impI)
  assume "brace_fragment content = None
      \<or> (\<exists>json_str m. brace_fragment content = Some json_str
            \<and> json_loads eng json_str = Inl (JSONDecodeError m))"
  then show "parse_text_response eng content = Inr (AiDict (text_response content))"
    by (auto simp: parse_text_response_def)
next
  show "d_score (text_response content)
       = Some (if str_in ''performance'' (lower content) \<and> str_in ''recursive'' (lower content)
               then 3 else 5)"
    by (rule text_response_score)
next
  assume "str_in ''recursive'' (lower content) \<and> str_in ''fibonacci'' (lower content)"
  then show "d_issues (text_response content) \<noteq> []"
    by (simp add: text_response_has_issue)
next
  show "\<forall>i \<in> set (d_issues (text_response content)). ri_type i = Some ''performance_issue''"
    by (auto simp: text_response_issues fibonacci_issue_def)
next
  assume "\<not> str_in ''fibonacci'' (lower content)"
  then show "d_issues (text_response content) = []"
    by (rule text_response_no_fibonacci)
next
  show "parse_issue_type ''performance_issue'' = Inr PERFORMANCE_ISSUE"
    by (rule parse_issue_type_performance)
qed

theorem text_extractor_score_witness:
  "parse_text_response (sample_engine None None None) ''Recursive Fibonacci: bad performance''
     = Inr (AiDict (text_response ''Recursive Fibonacci: bad performance''))
   \<and> d_score (text_response ''Recursive Fibonacci: bad performance'') = Some 3
   \<and> d_issues (text_response ''Recursive Fibonacci: bad performance'') \<noteq> []"
proof -
  have b: "brace_fragment ''Recursive Fibonacci: bad performance'' = None"
    by (rule brace_fragment_none) simp
  from text_extractor_score
    [of "''Recursive Fibonacci: bad performance''" "sample_engine None None None"]
    b sample_text_keywords2
  show ?thesis by simp
qed

text \<open>
  Claim C6 as stated fails: for the code of a recursive \<^verbatim>\<open>calculate_fibonacci\<close> and a
  response that says \<^verbatim>\<open>recursive performance\<close>, the score is 3 and there is no issue.
\<close>

theorem text_extractor_counterexample:
  "(case analyze_code
           (sample_engine None (Some (\<lambda>code language ctx. Inr ''recursive performance'')) None)
           recursive_fibonacci_code ''python'' None of
      Inr (AiDict d) \<Rightarrow> d_score d = Some 3 \<and> d_issues d = []
    | Inr AiOther \<Rightarrow> False
    | Inl e \<Rightarrow> False)
   \<and> 1 < str_count ''calculate_fibonacci'' recursive_fibonacci_code"
proof -
  have "analyze_code
           (sample_engine None (Some (\<lambda>code language ctx. Inr ''recursive performance'')) None)
           recursive_fibonacci_code ''python'' None
        = Inr (AiDict (text_response ''recursive performance''))"
    by (simp add: analyze_code_def analyze_code_try_def analyze_with_cohere_def
        sample_engine_def parse_text_response_plain)
  moreover have "d_score (text_response ''recursive performance'') = Some 3"
    by (simp add: text_response_score sample_text_keywords)
  moreover have "d_issues (text_response ''recursive performance'') = []"
    by (simp add: text_response_no_fibonacci sample_text_keywords)
  moreover have "1 < str_count ''calculate_fibonacci'' recursive_fibonacci_code"
    by code_simp
  ultimately show ?thesis by simp
qed

section \<open>Sanitizing the code\<close>

lemma star_quote_match:
  "re_match [Star NotQuote, One Quote] s \<noteq> None \<longleftrightarrow> list_ex is_quote s"
  by (induction s) (auto split: option.splits)

lemma body_match:
  "re_match [Plus NotQuote, One Quote] s \<noteq> None
   \<longleftrightarrow> s \<noteq> [] \<and> \<not> is_quote (hd s) \<and> list_ex is_quote s"
proof (cases s)
  case Nil
  then show ?thesis by simp
next
  case (Cons c cs)
  then show ?thesis using star_quote_match [of cs] by auto
qed

lemma REDACTED_no_quote: "\<not> list_ex is_quote REDACTED"
  by (simp add: REDACTED_def is_quote_def)

lemma redacts_quote: "redacts s u \<Longrightarrow> list_ex is_quote u \<Longrightarrow> list_ex is_quote s"
  by (induction rule: redacts.induct) (auto simp: REDACTED_no_quote)

lemma redacts_Nil_right: "redacts s [] \<Longrightarrow> s = []"
  by (cases rule: redacts.cases) (auto simp: REDACTED_def)

lemma redacts_Cons_right:
  assumes "redacts s (c # u)" "c \<noteq> CHR ''*''"
  shows "\<exists>s'. s = c # s' \<and> redacts s' u"
  using assms by (cases rule: redacts.cases) (auto simp: REDACTED_def)

lemma redacts_body:
  assumes "redacts s u" "u \<noteq> []" "\<not> is_quote (hd u)" "list_ex is_quote u"
  shows "s \<noteq> [] \<and> \<not> is_quote (hd s) \<and> list_ex is_quote s"
  using assms(1)
proof (cases rule: redacts.cases)
  case redacts_Nil
  with assms show ?thesis by simp
next
  case (redacts_keep s' u' c)
  with assms redacts_quote [OF assms(1)] show ?thesis by simp
next
  case (redacts_cut m s' u')
  then show ?thesis by (cases m) auto
qed

lemma re_match_skip_Opt: "re_match r s \<noteq> None \<Longrightarrow> re_match (Opt k # r) s \<noteq> None"
  by (cases s) (auto split: option.splits)

lemma re_match_skip_Star: "re_match r s \<noteq> None \<Longrightarrow> re_match (Star k # r) s \<noteq> None"
  by (cases s) (auto split: option.splits)

lemma re_match_redacts:
  "redaction_safe p \<Longrightarrow> re_match p u \<noteq> None \<Longrightarrow> redacts s u \<Longrightarrow> re_match p s \<noteq> None"
proof (induction p u arbitrary: s rule: re_match.induct)
  case (1 s')
  then show ?case by simp
next
  case (2 k r)
  then show ?case by simp
next
  case (3 k r c cs)
  from "3.prems" have m: "class_matches k c" "re_match r cs \<noteq> None"
    by (auto split: if_splits)
  from "3.prems"(1) m(1) have "c \<noteq> CHR ''*''" by auto
  from redacts_Cons_right [OF "3.prems"(3) this]
  obtain s' where s': "s = c # s'" "redacts s' cs" by blast
  from "3.IH" [OF m(1) _ m(2) s'(2)] "3.prems"(1) have "re_match r s' \<noteq> None" by simp
  with s' m show ?case by simp
next
  case (4 k r)
  from redacts_Nil_right [OF "4.prems"(3)] "4.prems"(2) show ?case by simp
next
  case (5 k r c cs)
  show ?case
  proof (cases "class_matches k c \<and> re_match r cs \<noteq> None")
    case True
    with "5.prems"(1) have "c \<noteq> CHR ''*''" by auto
    from redacts_Cons_right [OF "5.prems"(3) this]
    obtain s' where s': "s = c # s'" "redacts s' cs" by blast
    from "5.IH"(1) [OF _ _ _ s'(2)] True "5.prems"(1) have "re_match r s' \<noteq> None" by simp
    with s' True show ?thesis by (auto split: option.splits)
  next
    case False
    with "5.prems"(2) have n: "re_match r (c # cs) \<noteq> None"
      by (auto split: if_splits option.splits)
    have "re_match r s \<noteq> None"
    proof (cases "class_matches k c")
      case True
      with False have "re_match r cs = None" by simp
      from "5.IH"(2) [OF True this _ n "5.prems"(3)] "5.prems"(1) show ?thesis by simp
    next
      case False
      from "5.IH"(3) [OF False _ n "5.prems"(3)] "5.prems"(1) show ?thesis by simp
    qed
    then show ?thesis by (rule re_match_skip_Opt)
  qed
next
  case (6 k r)
  from redacts_Nil_right [OF "6.prems"(3)] "6.prems"(2) show ?case by simp
next
  case (7 k r c cs)
  show ?case
  proof (cases "class_matches k c \<and> re_match (Star k # r) cs \<noteq> None")
    case True
    with "7.prems"(1) have "c \<noteq> CHR ''*''" by auto
    from redacts_Cons_right [OF "7.prems"(3) this]
    obtain s' where s': "s = c # s'" "redacts s' cs" by blast
    from "7.IH"(1) [OF _ "7.prems"(1) _ s'(2)] True
    have "re_match (Star k # r) s' \<noteq> None" by simp
    with s' True show ?thesis by (auto split: option.splits)
  next
    case False
    with "7.prems"(2) have n: "re_match r (c # cs) \<noteq> None"
      by (auto split: if_splits option.splits)
    have "re_match r s \<noteq> None"
    proof (cases "class_matches k c")
      case True
      with False have "re_match (Star k # r) cs = None" by simp
      from "7.IH"(2) [OF True this _ n "7.prems"(3)] "7.prems"(1) show ?thesis by simp
    next
      case False
      from "7.IH"(3) [OF False _ n "7.prems"(3)] "7.prems"(1) show ?thesis by simp
    qed
    then show ?thesis by (rule re_match_skip_Star)
  qed
next
  case (8 k r)
  then show ?case by simp
next
  case (9 k r c cs)
  from "9.prems"(1) have p: "k = NotQuote" "r = [One Quote]" by simp_all
  from "9.prems"(2) have "re_match [Plus NotQuote, One Quote] (c # cs) \<noteq> None"
    unfolding p .
  then have "c # cs \<noteq> [] \<and> \<not> is_quote (hd (c # cs)) \<and> list_ex is_quote (c # cs)"
    by (rule iffD1 [OF body_match])
  then have "s \<noteq> [] \<and> \<not> is_quote (hd s) \<and> list_ex is_quote s"
    using redacts_body [OF "9.prems"(3)] by blast
  then have "re_match [Plus NotQuote, One Quote] s \<noteq> None"
    by (rule iffD2 [OF body_match])
  then show ?case unfolding p .
qed

text \<open>What a match takes: a part that ends in a quote, when the expression does.\<close>

lemma re_match_ends_with_quote:
  "p \<noteq> [] \<Longrightarrow> last p = One Quote \<Longrightarrow> re_match p s = Some rest \<Longrightarrow>
   \<exists>m q. s = m @ q # rest \<and> is_quote q"
proof (induction p s rule: re_match.induct)
  case (1 s)
  then show ?case by simp
next
  case (2 k r)
  then show ?case by simp
next
  case (3 k r c cs)
  from "3.prems"(3) have m: "class_matches k c" "re_match r cs = Some rest"
    by (auto split: if_splits)
  show ?case
  proof (cases "r = []")
    case True
    with "3.prems"(2) m have "is_quote c" "rest = cs" by simp_all
    then show ?thesis by auto
  next
    case False
    with "3.prems"(2) have "last r = One Quote" by simp
    from "3.IH" [OF m(1) False this m(2)]
    obtain m' q where "cs = m' @ q # rest" "is_quote q" by blast
    then have "c # cs = (c # m') @ q # rest" by simp
    with \<open>is_quote q\<close> show ?thesis by blast
  qed
next
  case (4 k r)
  from "4.prems"(2) have r: "r \<noteq> []" "last r = One Quote" by (auto split: if_splits)
  from "4.IH" [OF r] "4.prems"(3) show ?case by simp
next
  case (5 k r c cs)
  from "5.prems"(2) have r: "r \<noteq> []" "last r = One Quote" by (auto split: if_splits)
  show ?case
  proof (cases "class_matches k c")
    case True
    show ?thesis
    proof (cases "re_match r cs")
      case None
      with True "5.prems"(3) have "re_match r (c # cs) = Some rest" by simp
      from "5.IH"(2) [OF True None r this] show ?thesis .
    next
      case (Some rest')
      with True "5.prems"(3) have "re_match r cs = Some rest" by simp
      from "5.IH"(1) [OF True r this]
      obtain m' q where "cs = m' @ q # rest" "is_quote q" by blast
      then have "c # cs = (c # m') @ q # rest" by simp
      with \<open>is_quote q\<close> show ?thesis by blast
    qed
  next
    case False
    with "5.prems"(3) have "re_match r (c # cs) = Some rest" by simp
    from "5.IH"(3) [OF False r this] show ?thesis .
  qed
next
  case (6 k r)
  from "6.prems"(2) have r: "r \<noteq> []" "last r = One Quote" by (auto split: if_splits)
  from "6.IH" [OF r] "6.prems"(3) show ?case by simp
next
  case (7 k r c cs)
  from "7.prems"(2) have r: "r \<noteq> []" "last r = One Quote" by (auto split: if_splits)
  have sr: "Star k # r \<noteq> []" "last (Star k # r) = One Quote" using r by simp_all
  show ?case
  proof (cases "class_matches k c")
    case True
    show ?thesis
    proof (cases "re_match (Star k # r) cs")
      case None
      with True "7.prems"(3) have "re_match r (c # cs) = Some rest" by simp
      from "7.IH"(2) [OF True None r this] show ?thesis .
    next
      case (Some rest')
      with True "7.prems"(3) have "re_match (Star k # r) cs = Some rest" by simp
      from "7.IH"(1) [OF True sr this]
      obtain m' q where "cs = m' @ q # rest" "is_quote q" by blast
      then have "c # cs = (c # m') @ q # rest" by simp
      with \<open>is_quote q\<close> show ?thesis by blast
    qed
  next
    case False
    with "7.prems"(3) have "re_match r (c # cs) = Some rest" by simp
    from "7.IH"(3) [OF False r this] show ?thesis .
  qed
next
  case (8 k r)
  then show ?case by simp
next
  case (9 k r c cs)
  from "9.prems"(2) have r: "r \<noteq> []" "last r = One Quote" by (auto split: if_splits)
  have sr: "Star k # r \<noteq> []" "last (Star k # r) = One Quote" using r by simp_all
  from "9.prems"(3) have m: "class_matches k c" "re_match (Star k # r) cs = Some rest"
    by (auto split: if_splits)
  from "9.IH" [OF m(1) sr m(2)]
  obtain m' q where "cs = m' @ q # rest" "is_quote q" by blast
  then have "c # cs = (c # m') @ q # rest" by simp
  with \<open>is_quote q\<close> show ?case by blast
qed

lemma lower_char_simps:
  "lower_char CHR ''*'' = CHR ''*''" "lower_char CHR ''='' = CHR ''=''"
  "lower_char CHR ''a'' = CHR ''a''" "lower_char CHR ''p'' = CHR ''p''"
  "lower_char CHR ''s'' = CHR ''s''" "lower_char CHR ''t'' = CHR ''t''"
  "lower_char CHR ''k'' = CHR ''k''" "lower_char CHR ''i'' = CHR ''i''"
  "lower_char CHR ''e'' = CHR ''e''" "lower_char CHR ''y'' = CHR ''y''"
  "lower_char CHR ''w'' = CHR ''w''" "lower_char CHR ''o'' = CHR ''o''"
  "lower_char CHR ''r'' = CHR ''r''" "lower_char CHR ''d'' = CHR ''d''"
  "lower_char CHR ''c'' = CHR ''c''" "lower_char CHR ''n'' = CHR ''n''"
  "lower_char CHR ''R'' = CHR ''r''" "lower_char CHR ''E'' = CHR ''e''"
  "lower_char CHR ''D'' = CHR ''d''" "lower_char CHR ''A'' = CHR ''a''"
  "lower_char CHR ''C'' = CHR ''c''" "lower_char CHR ''T'' = CHR ''t''"
  by (simp_all add: lower_char_def)

lemma sensitive_patterns_safe: "p \<in> set sensitive_patterns \<Longrightarrow> redaction_safe p"
  by (auto simp: sensitive_patterns_def literal_def quoted_assignment_def lower_char_simps
      is_space_def is_quote_def)

lemma sensitive_patterns_last:
  "p \<in> set sensitive_patterns \<Longrightarrow> p \<noteq> [] \<and> last p = One Quote"
  by (auto simp: sensitive_patterns_def literal_def quoted_assignment_def)

lemma letter_no_quote:
  "lower_char c = CHR ''a'' \<or> lower_char c = CHR ''p'' \<or> lower_char c = CHR ''s''
   \<or> lower_char c = CHR ''t'' \<or> lower_char c = CHR ''k'' \<Longrightarrow> \<not> is_quote c"
  by (auto simp: is_quote_def lower_char_def)

lemma sensitive_patterns_first:
  "p \<in> set sensitive_patterns \<Longrightarrow> re_match p s \<noteq> None \<Longrightarrow> s \<noteq> [] \<and> \<not> is_quote (hd s)"
proof (cases s)
  case Nil
  assume "p \<in> set sensitive_patterns" "re_match p s \<noteq> None"
  with Nil show ?thesis
    by (auto simp: sensitive_patterns_def literal_def)
next
  case (Cons c cs)
  assume "p \<in> set sensitive_patterns" "re_match p s \<noteq> None"
  with Cons have "lower_char c = CHR ''a'' \<or> lower_char c = CHR ''p'' \<or> lower_char c = CHR ''s''
   \<or> lower_char c = CHR ''t'' \<or> lower_char c = CHR ''k''"
    by (auto simp: sensitive_patterns_def literal_def lower_char_simps split: if_splits)
  with Cons show ?thesis by (simp add: letter_no_quote)
qed

lemma sensitive_match_parts:
  assumes "p \<in> set sensitive_patterns" "re_match p s = Some rest"
  shows "\<exists>m. s = m @ rest \<and> m \<noteq> [] \<and> \<not> is_quote (hd m) \<and> list_ex is_quote m"
proof -
  from sensitive_patterns_last [OF assms(1)] assms(2)
  obtain m q where m: "s = m @ q # rest" "is_quote q"
    using re_match_ends_with_quote by blast
  from sensitive_patterns_first [OF assms(1)] assms(2)
  have s: "s \<noteq> []" "\<not> is_quote (hd s)" by simp_all
  let ?m = "m @ [q]"
  have "s = ?m @ rest" using m by simp
  moreover have "?m \<noteq> []" by simp
  moreover have "hd ?m = hd s" using m by (cases m) simp_all
  then have "\<not> is_quote (hd ?m)" using s by simp
  moreover have "list_ex is_quote ?m" using m(2) by (simp add: list_ex_iff)
  ultimately show ?thesis by blast
qed

lemma sensitive_match_shorter:
  "p \<in> set sensitive_patterns \<Longrightarrow> re_match p s = Some rest \<Longrightarrow> length rest < length s"
proof -
  assume "p \<in> set sensitive_patterns" "re_match p s = Some rest"
  then obtain m where "s = m @ rest" "m \<noteq> []"
    using sensitive_match_parts by blast
  then show ?thesis by (cases m) simp_all
qed

lemma no_match_in_REDACTED:
  "p \<in> set sensitive_patterns \<Longrightarrow> has_match p (REDACTED @ u) = has_match p u"
  by (auto simp: sensitive_patterns_def literal_def REDACTED_def lower_char_simps)

lemma re_sub_redacts: "p \<in> set sensitive_patterns \<Longrightarrow> redacts s (re_sub p s)"
proof (induction p s rule: re_sub.induct)
  case (1 p)
  show ?case by (simp add: redacts_Nil)
next
  case (2 p c cs)
  show ?case
  proof (cases "re_match p (c # cs)")
    case None
    with "2.IH"(1) [OF None "2.prems"] show ?thesis by (simp add: redacts_keep)
  next
    case (Some rest)
    from sensitive_match_shorter [OF "2.prems" Some] have le: "length rest \<le> length cs" by simp
    from sensitive_match_parts [OF "2.prems" Some]
    obtain m where m: "c # cs = m @ rest" "m \<noteq> []" "\<not> is_quote (hd m)" "list_ex is_quote m"
      by blast
    from "2.IH"(2) [OF Some le "2.prems"] have "redacts rest (re_sub p rest)" .
    with m have "redacts (m @ rest) (REDACTED @ re_sub p rest)"
      by (intro redacts_cut)
    then have "redacts (c # cs) (REDACTED @ re_sub p rest)"
      unfolding m(1) [symmetric] .
    moreover have "re_sub p (c # cs) = REDACTED @ re_sub p rest"
      using Some le by simp
    ultimately show ?thesis by simp
  qed
qed

lemma has_match_append: "has_match p s \<Longrightarrow> has_match p (m @ s)"
  by (induction m) simp_all

lemma has_match_redacts:
  "redacts s u \<Longrightarrow> p \<in> set sensitive_patterns \<Longrightarrow> has_match p u \<Longrightarrow> has_match p s"
proof (induction rule: redacts.induct)
  case redacts_Nil
  then show ?case by simp
next
  case (redacts_keep s u c)
  from redacts_keep.prems(2) have "re_match p (c # u) \<noteq> None \<or> has_match p u" by simp
  then show ?case
  proof
    assume "re_match p (c # u) \<noteq> None"
    from re_match_redacts [OF sensitive_patterns_safe [OF redacts_keep.prems(1)] this
        redacts.redacts_keep [OF redacts_keep.hyps]]
    show ?thesis by simp
  next
    assume "has_match p u"
    from redacts_keep.IH [OF redacts_keep.prems(1) this] show ?thesis by simp
  qed
next
  case (redacts_cut m s u)
  from redacts_cut.prems have "has_match p u"
    by (simp add: no_match_in_REDACTED)
  from redacts_cut.IH [OF redacts_cut.prems(1) this] show ?case
    by (rule has_match_append)
qed

lemma sensitive_no_empty_match: "p \<in> set sensitive_patterns \<Longrightarrow> re_match p [] = None"
  by (auto simp: sensitive_patterns_def literal_def)

lemma re_sub_removes_matches:
  "p \<in> set sensitive_patterns \<Longrightarrow> \<not> has_match p (re_sub p s)"
proof (induction p s rule: re_sub.induct)
  case (1 p)
  then show ?case by (simp add: sensitive_no_empty_match)
next
  case (2 p c cs)
  show ?case
  proof (cases "re_match p (c # cs)")
    case None
    have "re_match p (c # re_sub p cs) = None"
    proof (rule ccontr)
      assume "re_match p (c # re_sub p cs) \<noteq> None"
      from re_match_redacts [OF sensitive_patterns_safe [OF "2.prems"] this
          redacts_keep [OF re_sub_redacts [OF "2.prems"]]]
      show False using None by simp
    qed
    with "2.IH"(1) [OF None "2.prems"] None show ?thesis by simp
  next
    case (Some rest)
    from sensitive_match_shorter [OF "2.prems" Some] have le: "length rest \<le> length cs" by simp
    from "2.IH"(2) [OF Some le "2.prems"] have "\<not> has_match p (re_sub p rest)" .
    then have "\<not> has_match p (REDACTED @ re_sub p rest)"
      by (simp add: no_match_in_REDACTED [OF "2.prems"])
    with Some le show ?thesis by simp
  qed
qed

lemma re_sub_no_match: "\<not> has_match p s \<Longrightarrow> re_sub p s = s"
  by (induction s) (auto split: option.splits)

lemma re_sub_keeps_clean:
  assumes "p \<in> set sensitive_patterns" "q \<in> set sensitive_patterns" "\<not> has_match q s"
  shows "\<not> has_match q (re_sub p s)"
  using has_match_redacts [OF re_sub_redacts [OF assms(1)] assms(2)] assms(3) by blast

lemma fold_clean:
  "set ps \<subseteq> set sensitive_patterns \<Longrightarrow> q \<in> set sensitive_patterns \<Longrightarrow>
   q \<in> set ps \<or> \<not> has_match q s \<Longrightarrow>
   \<not> has_match q (foldl (\<lambda>sanitized_code pattern. re_sub pattern sanitized_code) s ps)"
proof (induction ps arbitrary: s)
  case Nil
  then show ?case by simp
next
  case (Cons p ps)
  from Cons.prems(1) have p: "p \<in> set sensitive_patterns" and ps: "set ps \<subseteq> set sensitive_patterns"
    by simp_all
  have "q \<in> set ps \<or> \<not> has_match q (re_sub p s)"
  proof (cases "q \<in> set ps")
    case True
    then show ?thesis by simp
  next
    case False
    show ?thesis
    proof (cases "q = p")
      case True
      then show ?thesis using re_sub_removes_matches [OF p] by simp
    next
      case False
      with \<open>q \<notin> set ps\<close> Cons.prems(3) have "\<not> has_match q s" by simp
      from re_sub_keeps_clean [OF p Cons.prems(2) this] show ?thesis by simp
    qed
  qed
  from Cons.IH [OF ps Cons.prems(2) this] show ?case by simp
qed

lemma fold_no_match:
  "\<forall>p \<in> set ps. \<not> has_match p s \<Longrightarrow>
   foldl (\<lambda>sanitized_code pattern. re_sub pattern sanitized_code) s ps = s"
  by (induction ps) (simp_all add: re_sub_no_match)

lemma sanitize_code_clean:
  "p \<in> set sensitive_patterns \<Longrightarrow> \<not> has_match p (sanitize_code code)"
  unfolding sanitize_code_def by (rule fold_clean) simp_all

text \<open>
  Claim C10. Sanitizing twice is sanitizing once, and a code in which none of the five
  expressions has a match is returned as it is. After \<^verbatim>\<open>sanitize_code\<close> no match of any
  of the five expressions is left: a substitution removes the matches of its own
  expression, and the replacement text, which holds no quote, no letter sequence of a
  keyword and no equals sign, can only stand where a match that was there before
  already reached.
\<close>
theorem sanitize_code_idempotent:
  "sanitize_code (sanitize_code code) = sanitize_code code
   \<and> ((\<forall>p \<in> set sensitive_patterns. \<not> has_match p code) \<longrightarrow> sanitize_code code = code)"
proof
  have "\<forall>p \<in> set sensitive_patterns. \<not> has_match p (sanitize_code code)"
    by (simp add: sanitize_code_clean)
  then show "sanitize_code (sanitize_code code) = sanitize_code code"
    unfolding sanitize_code_def [of "sanitize_code code"] by (rule fold_no_match)
  show "(\<forall>p \<in> set sensitive_patterns. \<not> has_match p code) \<longrightarrow> sanitize_code code = code"
    unfolding sanitize_code_def by (auto intro: fold_no_match)
qed

lemma sample_code_clean: "\<forall>p \<in> set sensitive_patterns. \<not> has_match p ''x = 1''"
  by code_simp

lemma sample_secret_sanitized:
  "sanitize_code ''token = 'abc' # key'' = ''***REDACTED*** # key''"
  by code_simp

theorem sanitize_code_idempotent_witness:
  "sanitize_code ''x = 1'' = ''x = 1''
   \<and> sanitize_code ''***REDACTED*** # key'' = ''***REDACTED*** # key''"
proof -
  from sanitize_code_idempotent [of "''x = 1''"] sample_code_clean
  have "sanitize_code ''x = 1'' = ''x = 1''" by blast
  moreover from sanitize_code_idempotent [of "''token = 'abc' # key''"]
  have "sanitize_code ''***REDACTED*** # key'' = ''***REDACTED*** # key''"
    by (simp add: sample_secret_sanitized)
  ultimately show ?thesis by simp
qed

end
